theory Spec2Isabelle
  imports Complex_Main
begin

section \<open>Request governance layer of the A-share data scripts\<close>

text \<open>
  The development embeds \<^verbatim>\<open>scripts/rate_limiter.py\<close> (RateLimiter, RetryHandler,
  DataCache, SourceRouter and the process-wide singletons) and the two governed
  requests \<^verbatim>\<open>scripts/spot.py: get_spot\<close> and \<^verbatim>\<open>scripts/hist.py: get_hist\<close>.

  Conventions of the embedding.
  \<^item> Python floats (seconds) are read as real numbers; rounding is not modelled.
  \<^item> \<^verbatim>\<open>time.time()\<close> and \<^verbatim>\<open>datetime.now()\<close> read one wall clock, a field of the world.
  \<^item> \<^verbatim>\<open>random.random()\<close> is a stream of numbers carried by the world;
    \<^verbatim>\<open>random.uniform(a, b)\<close> is \<^verbatim>\<open>a + (b - a) * random()\<close>, as in the standard library.
  \<^item> An exception is a value; a function that can raise returns \<open>exn + 'a\<close>.
  \<^item> Naive datetimes are seconds since 1970-01-01 00:00:00, the local time zone being
    UTC; \<^verbatim>\<open>base_delay\<close>, \<^verbatim>\<open>max_delay\<close> and the intervals are floats, as annotated.
  \<^item> Locks, logging and the request-header session are left out: they neither read nor
    write any state modelled here.
\<close>

subsection \<open>Python values and exceptions\<close>

datatype pyval =
    PNone
  | PBool bool
  | PInt int
  | PStr string
  | PList "pyval list"
  | PDict "(string \<times> pyval) list"

text \<open>Truth value testing, as \<^verbatim>\<open>if cached:\<close> performs it.\<close>

fun truthy :: "pyval \<Rightarrow> bool" where
  "truthy PNone = False"
| "truthy (PBool b) = b"
| "truthy (PInt i) = (i \<noteq> 0)"
| "truthy (PStr s) = (s \<noteq> [])"
| "truthy (PList xs) = (xs \<noteq> [])"
| "truthy (PDict kvs) = (kvs \<noteq> [])"

text \<open>
  An exception object: whether it is an instance of \<^verbatim>\<open>Exception\<close> (and not of
  \<^verbatim>\<open>BaseException\<close> only, as \<^verbatim>\<open>KeyboardInterrupt\<close> is), its class name, and the text
  \<^verbatim>\<open>str(e)\<close> gives.
\<close>

datatype exn = Exn (is_Exception: bool) (exn_class: string) (exn_str: string)

subsection \<open>The world: clock, randomness, sleeping, the upstream provider\<close>

datatype event = Invoke | Sleep real

record 'u world =
  clock :: real
  rnd :: "nat \<Rightarrow> real"
  rnd_pos :: nat
  oversleep :: "nat \<Rightarrow> real"
  sleep_max :: real
  trace :: "event list"
  upstream :: 'u

text \<open>
  \<open>rnd w i\<close> is the i-th result of \<^verbatim>\<open>random.random()\<close>; \<open>trace\<close> is an observation log
  kept by the model (thunk invocations and sleeps, oldest first);
  \<open>oversleep w n\<close> is how much longer than requested the sleep logged at trace
  position n lasts; \<open>sleep_max\<close> is the longest duration \<^verbatim>\<open>time.sleep\<close> accepts on the
  platform; \<open>upstream\<close> is the state of the provider a fetch thunk talks to.

  \<open>time_sleep d w\<close> is the world after a sleep of \<open>d\<close> seconds that has returned.
\<close>

definition time_sleep :: "real \<Rightarrow> 'u world \<Rightarrow> 'u world" where
  "time_sleep d w =
     w\<lparr>clock := clock w + d + oversleep w (length (trace w)),
       trace := trace w @ [Sleep d]\<rparr>"

text \<open>
  The call \<^verbatim>\<open>time.sleep(d)\<close> with its argument check: a negative duration is a
  ValueError, one beyond the platform's range an OverflowError, and neither sleeps.
\<close>

definition sleep_or_raise :: "real \<Rightarrow> 'u world \<Rightarrow> exn + 'u world" where
  "sleep_or_raise d w =
     (if d < 0 then Inl (Exn True ''ValueError'' ''sleep length must be non-negative'')
      else if sleep_max w < d
      then Inl (Exn True ''OverflowError'' ''timestamp out of range for platform time_t'')
      else Inr (time_sleep d w))"

definition random_uniform :: "real \<Rightarrow> real \<Rightarrow> 'u world \<Rightarrow> real \<times> 'u world" where
  "random_uniform a b w = (a + (b - a) * rnd w (rnd_pos w), w\<lparr>rnd_pos := Suc (rnd_pos w)\<rparr>)"

text \<open>A zero-argument thunk performing I/O against the provider.\<close>

type_synonym ('u, 'a) thunk = "'u \<Rightarrow> (exn + 'a) \<times> 'u"

definition invoke :: "('u, 'a) thunk \<Rightarrow> 'u world \<Rightarrow> (exn + 'a) \<times> 'u world" where
  "invoke func w =
     (let (r, u') = func (upstream w)
      in (r, w\<lparr>trace := trace w @ [Invoke], upstream := u'\<rparr>))"

definition invocations :: "'u world \<Rightarrow> nat" where
  "invocations w = length (filter (\<lambda>ev. ev = Invoke) (trace w))"

definition sleeps :: "'u world \<Rightarrow> real list" where
  "sleeps w = concat (map (\<lambda>ev. case ev of Invoke \<Rightarrow> [] | Sleep d \<Rightarrow> [d]) (trace w))"

subsection \<open>RetryHandler\<close>

record RetryHandler =
  max_retries :: int
  base_delay :: real
  max_delay :: real
  rh_enable_random :: bool

definition RetryHandler_init :: "int \<Rightarrow> real \<Rightarrow> real \<Rightarrow> bool \<Rightarrow> RetryHandler" where
  "RetryHandler_init mr bd md er =
     \<lparr>max_retries = mr, base_delay = bd, max_delay = md, rh_enable_random = er\<rparr>"

text \<open>
  \<^verbatim>\<open>str.lower()\<close> on code points below 256: the ASCII capitals and the Latin-1
  capitals (all of 192..222 but the multiplication sign 215) move up by 32.
\<close>

definition lower_char :: "char \<Rightarrow> char" where
  "lower_char c =
     (let n = (of_char c :: nat)
      in if (65 \<le> n \<and> n \<le> 90) \<or> (192 \<le> n \<and> n \<le> 222 \<and> n \<noteq> 215)
         then char_of (n + 32) else c)"

definition lower :: "string \<Rightarrow> string" where
  "lower s = map lower_char s"

fun starts_with :: "string \<Rightarrow> string \<Rightarrow> bool" where
  "starts_with s [] = True"
| "starts_with [] (k # ks) = False"
| "starts_with (c # s) (k # ks) = (c = k \<and> starts_with s ks)"

text \<open>\<open>contains s k\<close> is Python's \<^verbatim>\<open>k in s\<close> on strings.\<close>

fun contains :: "string \<Rightarrow> string \<Rightarrow> bool" where
  "contains [] k = (k = [])"
| "contains (c # s) k = (starts_with (c # s) k \<or> contains s k)"

definition retryable_keywords :: "string list" where
  "retryable_keywords =
     [''connection'', ''timeout'', ''reset'', ''refused'', ''403'', ''429'',
      ''rate limit'', ''too many request'', ''forbidden'', ''network'']"

definition is_retryable_error :: "exn \<Rightarrow> bool" where
  "is_retryable_error error =
     (let error_str = lower (exn_str error)
      in list_ex (\<lambda>keyword. contains error_str keyword) retryable_keywords)"

text \<open>\<^verbatim>\<open>2 ** attempt\<close> for a Python int (a float below 1 when the exponent is negative).\<close>

definition pow2 :: "int \<Rightarrow> real" where
  "pow2 attempt = (if 0 \<le> attempt then 2 ^ nat attempt else 1 / 2 ^ nat (- attempt))"

text \<open>
  In \<^verbatim>\<open>self.base_delay * (2 ** attempt)\<close> the right factor is an exact int for
  \<open>attempt \<ge> 0\<close>; multiplying it with the float converts it to a float, which
  raises OverflowError from \<open>2 ^ 1024\<close> on.
\<close>

definition int_too_large :: exn where
  "int_too_large = Exn True ''OverflowError'' ''int too large to convert to float''"

definition calculate_delay ::
  "RetryHandler \<Rightarrow> int \<Rightarrow> 'u world \<Rightarrow> (exn + real) \<times> 'u world" where
  "calculate_delay h attempt w =
     (if 1024 \<le> attempt then (Inl int_too_large, w)
      else (let delay = base_delay h * pow2 attempt;
                delay = min delay (max_delay h)
            in if rh_enable_random h
               then (let (r, w') = random_uniform 1 3 w in (Inr (delay + r), w'))
               else (Inr delay, w)))"

text \<open>
  The loop \<^verbatim>\<open>for attempt in range(self.max_retries + 1)\<close>: \<open>attempt\<close> is the loop
  variable, \<open>remaining\<close> the number of iterations still to run, \<open>last_error\<close> the
  variable of that name. \<^verbatim>\<open>except Exception\<close> lets anything that is no \<^verbatim>\<open>Exception\<close>
  pass; what \<^verbatim>\<open>calculate_delay\<close> or \<^verbatim>\<open>time.sleep\<close> raise inside the handler leaves
  the loop. Leaving the loop at its end executes \<^verbatim>\<open>raise last_error\<close>, which for
  \<^verbatim>\<open>None\<close> is a TypeError.
\<close>

definition raise_None :: exn where
  "raise_None = Exn True ''TypeError'' ''exceptions must derive from BaseException''"

fun execute_loop ::
  "RetryHandler \<Rightarrow> ('u, 'a) thunk \<Rightarrow> nat \<Rightarrow> nat \<Rightarrow> exn option \<Rightarrow> 'u world
     \<Rightarrow> (exn + 'a) \<times> 'u world" where
  "execute_loop h func attempt 0 last_error w =
     (case last_error of None \<Rightarrow> (Inl raise_None, w) | Some e \<Rightarrow> (Inl e, w))"
| "execute_loop h func attempt (Suc remaining) last_error w =
     (case invoke func w of
        (Inr v, w1) \<Rightarrow> (Inr v, w1)
      | (Inl e, w1) \<Rightarrow>
          if \<not> is_Exception e then (Inl e, w1)
          else if \<not> is_retryable_error e then (Inl e, w1)
          else if int attempt < max_retries h
          then (case calculate_delay h (int attempt) w1 of
                  (Inl e', w2) \<Rightarrow> (Inl e', w2)
                | (Inr delay, w2) \<Rightarrow>
                    (case sleep_or_raise delay w2 of
                       Inl e' \<Rightarrow> (Inl e', w2)
                     | Inr w3 \<Rightarrow> execute_loop h func (Suc attempt) remaining (Some e) w3))
          else execute_loop h func (Suc attempt) remaining (Some e) w1)"

definition execute :: "RetryHandler \<Rightarrow> ('u, 'a) thunk \<Rightarrow> 'u world \<Rightarrow> (exn + 'a) \<times> 'u world" where
  "execute h func w = execute_loop h func 0 (nat (max_retries h + 1)) None w"

subsection \<open>RateLimiter\<close>

record RateLimiter =
  min_interval :: real
  max_interval :: real
  rl_enable_random :: bool
  last_request_time :: real

definition RateLimiter_init :: "real \<Rightarrow> real \<Rightarrow> bool \<Rightarrow> RateLimiter" where
  "RateLimiter_init mi ma er =
     \<lparr>min_interval = mi, max_interval = ma, rl_enable_random = er, last_request_time = 0\<rparr>"

definition wait :: "RateLimiter \<Rightarrow> 'u world \<Rightarrow> RateLimiter \<times> 'u world" where
  "wait rl w =
     (let now = clock w;
          elapsed = now - last_request_time rl
      in if elapsed < min_interval rl
         then (let (wait_time, w1) =
                     (if rl_enable_random rl
                      then random_uniform (min_interval rl) (max_interval rl) w
                      else (min_interval rl, w));
                   sleep_time = wait_time - elapsed;
                   w2 = (if sleep_time > 0 then time_sleep sleep_time w1 else w1)
               in (rl\<lparr>last_request_time := clock w2\<rparr>, w2))
         else (rl\<lparr>last_request_time := clock w\<rparr>, w))"




subsection \<open>DataCache\<close>

record DataCache =
  ttl_seconds :: int
  entries :: "string \<rightharpoonup> pyval \<times> real"

definition DataCache_init :: "int \<Rightarrow> DataCache" where
  "DataCache_init ttl = \<lparr>ttl_seconds = ttl, entries = Map.empty\<rparr>"

text \<open>The second argument of \<open>DataCache_get\<close> and \<open>DataCache_set\<close> is \<^verbatim>\<open>datetime.now()\<close>.\<close>

definition DataCache_get :: "DataCache \<Rightarrow> real \<Rightarrow> string \<Rightarrow> pyval \<times> DataCache" where
  "DataCache_get c now key =
     (case entries c key of
        Some (val, expire_time) \<Rightarrow>
          if now < expire_time then (val, c)
          else (PNone, c\<lparr>entries := (entries c)(key := None)\<rparr>)
      | None \<Rightarrow> (PNone, c))"

text \<open>
  \<^verbatim>\<open>timedelta(seconds=ttl)\<close> for an int: the days of the normalised duration must fit
  a C int (32 bits) and have magnitude at most 999999999. \<open>str_int\<close> is \<^verbatim>\<open>str\<close> on
  ints, for the message.
\<close>

definition digit :: "nat \<Rightarrow> char" where
  "digit n = ''0123456789'' ! n"

function str_nat :: "nat \<Rightarrow> string" where
  "str_nat n = (if n < 10 then [digit n] else str_nat (n div 10) @ [digit (n mod 10)])"
  by pat_completeness auto
termination
  by (relation "measure (\<lambda>n. n)") auto

declare str_nat.simps [simp del]

definition str_int :: "int \<Rightarrow> string" where
  "str_int i = (if i < 0 then CHR ''-'' # str_nat (nat (- i)) else str_nat (nat i))"

definition timedelta_seconds :: "int \<Rightarrow> exn + int" where
  "timedelta_seconds ttl =
     (let days = ttl div 86400
      in if days < - (2 ^ 31) \<or> 2 ^ 31 \<le> days
         then Inl (Exn True ''OverflowError'' ''Python int too large to convert to C int'')
         else if days < - 999999999 \<or> 999999999 < days
         then Inl (Exn True ''OverflowError''
                     (''days='' @ str_int days @ ''; must have magnitude <= 999999999''))
         else Inr ttl)"

text \<open>
  A datetime plus a duration: the sum has to lie between \<^verbatim>\<open>datetime.min\<close>
  (0001-01-01 00:00:00) and \<^verbatim>\<open>datetime.max\<close> (the last microsecond of 9999).
\<close>

definition datetime_min :: real where
  "datetime_min = - 62135596800"

definition datetime_end :: real where
  "datetime_end = 253402300800"

definition datetime_add :: "real \<Rightarrow> int \<Rightarrow> exn + real" where
  "datetime_add now secs =
     (let t = now + real_of_int secs
      in if t < datetime_min \<or> datetime_end \<le> t
         then Inl (Exn True ''OverflowError'' ''date value out of range'')
         else Inr t)"

definition DataCache_set :: "DataCache \<Rightarrow> real \<Rightarrow> string \<Rightarrow> pyval \<Rightarrow> exn + DataCache" where
  "DataCache_set c now key val =
     (case timedelta_seconds (ttl_seconds c) of
        Inl e \<Rightarrow> Inl e
      | Inr secs \<Rightarrow>
          (case datetime_add now secs of
             Inl e \<Rightarrow> Inl e
           | Inr expire_time \<Rightarrow> Inr (c\<lparr>entries := (entries c)(key \<mapsto> (val, expire_time))\<rparr>)))"

definition DataCache_clear :: "DataCache \<Rightarrow> DataCache" where
  "DataCache_clear c = c\<lparr>entries := Map.empty\<rparr>"

subsection \<open>SourceRouter\<close>

record SourceRouter =
  sources :: "(string \<times> string list) list"
  failed_sources :: "string \<rightharpoonup> string set"

definition DEFAULT_SOURCES :: "(string \<times> string list) list" where
  "DEFAULT_SOURCES =
     [(''info'', [''em'', ''xq'']),
      (''spot'', [''em'', ''sina'']),
      (''hist'', [''em'', ''tx'', ''sina'']),
      (''minute'', [''em'', ''sina'']),
      (''intraday'', [''em'', ''sina''])]"

text \<open>\<^verbatim>\<open>sources or self.DEFAULT_SOURCES\<close>: \<^verbatim>\<open>None\<close> and the empty dict select the default.\<close>

definition SourceRouter_init :: "(string \<times> string list) list option \<Rightarrow> SourceRouter" where
  "SourceRouter_init srcs =
     \<lparr>sources = (case srcs of None \<Rightarrow> DEFAULT_SOURCES
                  | Some s \<Rightarrow> if s = [] then DEFAULT_SOURCES else s),
      failed_sources = Map.empty\<rparr>"

text \<open>\<^verbatim>\<open>self.sources.get(operation, [])\<close> and \<^verbatim>\<open>self._failed_sources.get(operation, set())\<close>.\<close>

definition available_sources :: "SourceRouter \<Rightarrow> string \<Rightarrow> string list" where
  "available_sources r operation =
     (case map_of (sources r) operation of None \<Rightarrow> [] | Some l \<Rightarrow> l)"

definition failed :: "SourceRouter \<Rightarrow> string \<Rightarrow> string set" where
  "failed r operation = (case failed_sources r operation of None \<Rightarrow> {} | Some f \<Rightarrow> f)"

definition get_source :: "SourceRouter \<Rightarrow> string \<Rightarrow> string option \<Rightarrow> string option" where
  "get_source r operation preferred =
     (let candidates = filter (\<lambda>s. s \<notin> failed r operation) (available_sources r operation)
      in if (case preferred of None \<Rightarrow> False | Some p \<Rightarrow> p \<noteq> [] \<and> p \<in> set candidates)
         then preferred
         else (case candidates of [] \<Rightarrow> None | c # _ \<Rightarrow> Some c))"

definition mark_failed :: "SourceRouter \<Rightarrow> string \<Rightarrow> string \<Rightarrow> SourceRouter" where
  "mark_failed r operation source =
     r\<lparr>failed_sources := (failed_sources r)(operation \<mapsto> insert source (failed r operation))\<rparr>"

definition mark_success :: "SourceRouter \<Rightarrow> string \<Rightarrow> string \<Rightarrow> SourceRouter" where
  "mark_success r operation source =
     (case failed_sources r operation of
        None \<Rightarrow> r
      | Some f \<Rightarrow> r\<lparr>failed_sources := (failed_sources r)(operation \<mapsto> f - {source})\<rparr>)"

definition reset :: "SourceRouter \<Rightarrow> SourceRouter" where
  "reset r = r\<lparr>failed_sources := Map.empty\<rparr>"

text \<open>Calls on a router, and the router after a sequence of them.\<close>

datatype router_call =
    GetSource string "string option"
  | MarkFailed string string
  | MarkSuccess string string
  | Reset

fun router_step :: "SourceRouter \<Rightarrow> router_call \<Rightarrow> SourceRouter" where
  "router_step r (GetSource operation preferred) = r"
| "router_step r (MarkFailed operation source) = mark_failed r operation source"
| "router_step r (MarkSuccess operation source) = mark_success r operation source"
| "router_step r Reset = reset r"

definition router_run :: "SourceRouter \<Rightarrow> router_call list \<Rightarrow> SourceRouter" where
  "router_run r calls = foldl router_step r calls"

text \<open>A call is \<open>listed\<close> when it is no \<open>mark_failed\<close> of a source outside the candidate list.\<close>

fun listed :: "SourceRouter \<Rightarrow> router_call \<Rightarrow> bool" where
  "listed r (MarkFailed operation source) = (source \<in> set (available_sources r operation))"
| "listed r c = True"

subsection \<open>The process-wide singletons\<close>

text \<open>
  The module variables \<^verbatim>\<open>_rate_limiter\<close>, \<^verbatim>\<open>_retry_handler\<close>, \<^verbatim>\<open>_cache\<close> and
  \<^verbatim>\<open>_source_router\<close> (\<open>None\<close> until first use), together with the world.
\<close>

record 'u system =
  g_rate_limiter :: "RateLimiter option"
  g_retry_handler :: "RetryHandler option"
  g_cache :: "DataCache option"
  g_source_router :: "SourceRouter option"
  env :: "'u world"

definition get_rate_limiter :: "'u system \<Rightarrow> RateLimiter \<times> 'u system" where
  "get_rate_limiter s =
     (case g_rate_limiter s of
        None \<Rightarrow> (let l = RateLimiter_init 1 3 True in (l, s\<lparr>g_rate_limiter := Some l\<rparr>))
      | Some l \<Rightarrow> (l, s))"

definition get_retry_handler :: "'u system \<Rightarrow> RetryHandler \<times> 'u system" where
  "get_retry_handler s =
     (case g_retry_handler s of
        None \<Rightarrow> (let h = RetryHandler_init 3 5 60 True in (h, s\<lparr>g_retry_handler := Some h\<rparr>))
      | Some h \<Rightarrow> (h, s))"

definition get_cache :: "'u system \<Rightarrow> DataCache \<times> 'u system" where
  "get_cache s =
     (case g_cache s of
        None \<Rightarrow> (let c = DataCache_init 300 in (c, s\<lparr>g_cache := Some c\<rparr>))
      | Some c \<Rightarrow> (c, s))"

definition get_source_router :: "'u system \<Rightarrow> SourceRouter \<times> 'u system" where
  "get_source_router s =
     (case g_source_router s of
        None \<Rightarrow> (let r = SourceRouter_init None in (r, s\<lparr>g_source_router := Some r\<rparr>))
      | Some r \<Rightarrow> (r, s))"

definition configure_rate_limiter :: "real \<Rightarrow> real \<Rightarrow> bool \<Rightarrow> 'u system \<Rightarrow> 'u system" where
  "configure_rate_limiter mi ma er s = s\<lparr>g_rate_limiter := Some (RateLimiter_init mi ma er)\<rparr>"

definition configure_retry_handler :: "int \<Rightarrow> real \<Rightarrow> real \<Rightarrow> 'u system \<Rightarrow> 'u system" where
  "configure_retry_handler mr bd md s =
     s\<lparr>g_retry_handler := Some (RetryHandler_init mr bd md True)\<rparr>"

subsection \<open>The governed requests get_spot and get_hist\<close>

text \<open>
  The HTTP fetches \<^verbatim>\<open>_fetch_tx\<close> and \<^verbatim>\<open>_fetch_tx_hist\<close> are parameters: thunks against
  the provider, indexed by the arguments the source passes them. Each request is
  split where the source falls through from the cache lookup: \<open>get_spot_miss\<close> is
  the body of \<^verbatim>\<open>get_spot\<close> from \<^verbatim>\<open>rate_limiter.get_rate_limiter().wait()\<close> on.
  The handler \<^verbatim>\<open>except Exception as e: raise\<close> passes every exception on.
\<close>

text \<open>
  The closing lines of both requests, \<^verbatim>\<open>cache = rate_limiter.get_cache()\<close>,
  \<^verbatim>\<open>cache.ttl_seconds = ttl\<close>, \<^verbatim>\<open>cache.set(cache_key, output)\<close>, \<^verbatim>\<open>return output\<close>: the
  field is assigned before \<^verbatim>\<open>set\<close> runs and keeps the new value if \<^verbatim>\<open>set\<close> raises.
\<close>

definition store_result ::
  "int \<Rightarrow> string \<Rightarrow> pyval \<Rightarrow> 'u system \<Rightarrow> (exn + pyval) \<times> 'u system" where
  "store_result ttl cache_key output s =
     (let (c, s5) = get_cache s;
          c1 = c\<lparr>ttl_seconds := ttl\<rparr>
      in case DataCache_set c1 (clock (env s5)) cache_key output of
           Inl e \<Rightarrow> (Inl e, s5\<lparr>g_cache := Some c1\<rparr>)
         | Inr c2 \<Rightarrow> (Inr output, s5\<lparr>g_cache := Some c2\<rparr>))"

definition spot_key :: "string \<Rightarrow> string \<Rightarrow> string" where
  "spot_key symbol source = ''spot_'' @ symbol @ ''_'' @ source"

definition get_spot_miss ::
  "(string \<Rightarrow> ('u, pyval) thunk) \<Rightarrow> string \<Rightarrow> string \<Rightarrow> bool \<Rightarrow> 'u system
     \<Rightarrow> (exn + pyval) \<times> 'u system" where
  "get_spot_miss fetch_tx symbol source use_cache s =
     (let (l, s1) = get_rate_limiter s;
          (l', w') = wait l (env s1);
          s2 = s1\<lparr>g_rate_limiter := Some l', env := w'\<rparr>;
          (h, s3) = get_retry_handler s2;
          (res, w'') = execute h (fetch_tx symbol) (env s3);
          s4 = s3\<lparr>env := w''\<rparr>
      in case res of
           Inl e \<Rightarrow> (Inl e, s4)
         | Inr result \<Rightarrow>
             (let output = PDict [(''symbol'', PStr symbol), (''source'', PStr ''tx''),
                                  (''quote'', result)]
              in if use_cache
                 then store_result 30 (spot_key symbol source) output s4
                 else (Inr output, s4)))"

definition get_spot ::
  "(string \<Rightarrow> ('u, pyval) thunk) \<Rightarrow> string \<Rightarrow> string \<Rightarrow> bool \<Rightarrow> 'u system
     \<Rightarrow> (exn + pyval) \<times> 'u system" where
  "get_spot fetch_tx symbol source use_cache s =
     (if use_cache
      then (let (c, s1) = get_cache s;
                (cached, c') = DataCache_get c (clock (env s1)) (spot_key symbol source);
                s2 = s1\<lparr>g_cache := Some c'\<rparr>
            in if truthy cached then (Inr cached, s2)
               else get_spot_miss fetch_tx symbol source use_cache s2)
      else get_spot_miss fetch_tx symbol source use_cache s)"

definition hist_key :: "string \<Rightarrow> string \<Rightarrow> string \<Rightarrow> string \<Rightarrow> string \<Rightarrow> string" where
  "hist_key symbol start end_date period adjust =
     ''hist_'' @ symbol @ ''_'' @ start @ ''_'' @ end_date @ ''_'' @ period @ ''_'' @ adjust"

definition get_hist_miss ::
  "(string \<Rightarrow> string \<Rightarrow> string \<Rightarrow> string \<Rightarrow> string \<Rightarrow> ('u, pyval) thunk)
     \<Rightarrow> string \<Rightarrow> string \<Rightarrow> string \<Rightarrow> string \<Rightarrow> string \<Rightarrow> string \<Rightarrow> bool \<Rightarrow> 'u system
     \<Rightarrow> (exn + pyval) \<times> 'u system" where
  "get_hist_miss fetch_tx_hist symbol start end_date period adjust source use_cache s =
     (let (l, s1) = get_rate_limiter s;
          (l', w') = wait l (env s1);
          s2 = s1\<lparr>g_rate_limiter := Some l', env := w'\<rparr>;
          (h, s3) = get_retry_handler s2;
          (res, w'') = execute h (fetch_tx_hist symbol start end_date period adjust) (env s3);
          s4 = s3\<lparr>env := w''\<rparr>
      in case res of
           Inl e \<Rightarrow> (Inl e, s4)
         | Inr result \<Rightarrow>
             (let output = PDict [(''symbol'', PStr symbol), (''start'', PStr start),
                                  (''end'', PStr end_date), (''period'', PStr period),
                                  (''adjust'', PStr adjust), (''source'', PStr ''tx''),
                                  (''data'', result)]
              in if use_cache
                 then store_result 3600 (hist_key symbol start end_date period adjust) output s4
                 else (Inr output, s4)))"

definition get_hist ::
  "(string \<Rightarrow> string \<Rightarrow> string \<Rightarrow> string \<Rightarrow> string \<Rightarrow> ('u, pyval) thunk)
     \<Rightarrow> string \<Rightarrow> string \<Rightarrow> string \<Rightarrow> string \<Rightarrow> string \<Rightarrow> string \<Rightarrow> bool \<Rightarrow> 'u system
     \<Rightarrow> (exn + pyval) \<times> 'u system" where
  "get_hist fetch_tx_hist symbol start end_date period adjust source use_cache s =
     (if use_cache
      then (let (c, s1) = get_cache s;
                (cached, c') = DataCache_get c (clock (env s1))
                                 (hist_key symbol start end_date period adjust);
                s2 = s1\<lparr>g_cache := Some c'\<rparr>
            in if truthy cached then (Inr cached, s2)
               else get_hist_miss fetch_tx_hist symbol start end_date period adjust source
                      use_cache s2)
      else get_hist_miss fetch_tx_hist symbol start end_date period adjust source use_cache s)"

text \<open>A process that has imported the modules and touched none of the singletons.\<close>

definition fresh_system :: "'u world \<Rightarrow> 'u system" where
  "fresh_system w =
     \<lparr>g_rate_limiter = None, g_retry_handler = None, g_cache = None,
      g_source_router = None, env = w\<rparr>"

subsection \<open>Auxiliary notions for the statements\<close>

text \<open>A world whose random stream is constant and whose sleeps last exactly as requested.\<close>

definition plain_world :: "real \<Rightarrow> real \<Rightarrow> 'u \<Rightarrow> 'u world" where
  "plain_world t r u =
     \<lparr>clock = t, rnd = (\<lambda>i. r), rnd_pos = 0, oversleep = (\<lambda>n. 0), sleep_max = 9223372036,
      trace = [], upstream = u\<rparr>"


text \<open>The wait duration a call of \<^verbatim>\<open>wait()\<close> aims at (the variable \<^verbatim>\<open>wait_time\<close>).\<close>

definition target :: "RateLimiter \<Rightarrow> 'u world \<Rightarrow> real" where
  "target rl w =
     (if rl_enable_random rl
      then fst (random_uniform (min_interval rl) (max_interval rl) w)
      else min_interval rl)"

text \<open>
  \<open>fails_for func n u\<close>: from the provider state \<open>u\<close> on, each of the next \<open>n\<close>
  invocations of the thunk raises an \<^verbatim>\<open>Exception\<close> that is retryable.
\<close>

fun fails_for :: "('u, 'a) thunk \<Rightarrow> nat \<Rightarrow> 'u \<Rightarrow> bool" where
  "fails_for func 0 u = True"
| "fails_for func (Suc n) u =
     (case func u of
        (Inl e, u') \<Rightarrow> is_Exception e \<and> is_retryable_error e \<and> fails_for func n u'
      | (Inr v, u') \<Rightarrow> False)"

text \<open>
  A handler and a world in which every backoff can be computed and slept: at most
  1024 retries, delays that are not negative, the cap plus the largest jitter within
  the platform's range of sleeps, and \<^verbatim>\<open>random.random()\<close> in the unit interval.
\<close>

definition backoff_ok :: "RetryHandler \<Rightarrow> 'u world \<Rightarrow> bool" where
  "backoff_ok h w =
     (max_retries h \<le> 1024 \<and> 0 \<le> base_delay h \<and> 0 \<le> max_delay h
      \<and> max_delay h + 3 \<le> sleep_max w \<and> (\<forall>i. 0 \<le> rnd w i \<and> rnd w i \<le> 1))"

text \<open>The expiry \<open>now + ttl\<close> is one that \<^verbatim>\<open>timedelta\<close> and \<^verbatim>\<open>datetime\<close> can represent.\<close>

definition storable :: "real \<Rightarrow> int \<Rightarrow> bool" where
  "storable now ttl =
     (- 999999999 \<le> ttl div 86400 \<and> ttl div 86400 \<le> 999999999
      \<and> datetime_min \<le> now + real_of_int ttl \<and> now + real_of_int ttl < datetime_end)"

text \<open>The state of the provider after \<open>n\<close> invocations of a thunk.\<close>

fun upstream_after :: "('u, 'a) thunk \<Rightarrow> nat \<Rightarrow> 'u \<Rightarrow> 'u" where
  "upstream_after func 0 u = u"
| "upstream_after func (Suc n) u = upstream_after func n (snd (func u))"

text \<open>
  Fetches that time out on every call, one that is rejected as malformed, one
  interrupted from the keyboard with a text that names a timeout, and one that times
  out four times and then succeeds.
\<close>

definition timeout_error :: exn where
  "timeout_error = Exn True ''ReadTimeout'' ''read timeout''"

definition value_error :: exn where
  "value_error = Exn True ''ValueError'' ''bad json''"

definition interrupt :: exn where
  "interrupt = Exn False ''KeyboardInterrupt'' ''timeout''"

definition always_interrupted :: "(nat, pyval) thunk" where
  "always_interrupted u = (Inl interrupt, Suc u)"

definition always_timeout :: "(nat, pyval) thunk" where
  "always_timeout u = (Inl timeout_error, Suc u)"

definition always_malformed :: "(nat, pyval) thunk" where
  "always_malformed u = (Inl value_error, Suc u)"

text \<open>A fetch that succeeds with a fixed quote.\<close>

definition quote_ok :: pyval where
  "quote_ok = PDict [(''price'', PStr ''10.5'')]"

definition fetch_tx_ok :: "string \<Rightarrow> (nat, pyval) thunk" where
  "fetch_tx_ok symbol u = (Inr quote_ok, Suc u)"

definition fetch_tx_flaky :: "string \<Rightarrow> (nat, pyval) thunk" where
  "fetch_tx_flaky symbol u = (if u < 4 then Inl timeout_error else Inr quote_ok, Suc u)"

definition fetch_tx_timeout :: "string \<Rightarrow> (nat, pyval) thunk" where
  "fetch_tx_timeout symbol = always_timeout"

definition fetch_tx_hist_timeout ::
  "string \<Rightarrow> string \<Rightarrow> string \<Rightarrow> string \<Rightarrow> string \<Rightarrow> (nat, pyval) thunk" where
  "fetch_tx_hist_timeout symbol start end_date period adjust = always_timeout"

text \<open>
  The limiter and the world as \<^verbatim>\<open>wait()\<close> on the shared limiter leaves them, and the
  outcome of the cache lookup a governed request starts with: \<open>cache_miss\<close> when the
  lookup gives nothing truthy, \<open>falsy_cached\<close> when the key holds an unexpired value
  that is not truthy.
\<close>

definition cache_miss :: "string \<Rightarrow> 'u system \<Rightarrow> bool" where
  "cache_miss key s = (\<not> truthy (fst (DataCache_get (fst (get_cache s)) (clock (env s)) key)))"

definition limiter_after_wait :: "'u system \<Rightarrow> RateLimiter" where
  "limiter_after_wait s = fst (wait (fst (get_rate_limiter s)) (env s))"

definition world_after_wait :: "'u system \<Rightarrow> 'u world" where
  "world_after_wait s = snd (wait (fst (get_rate_limiter s)) (env s))"

text \<open>
  \<open>pacing_ok s\<close>: the sleep that \<^verbatim>\<open>wait()\<close> on the shared limiter asks for, if it asks
  for one, is within the range of sleeps the platform accepts, so that
  \<^verbatim>\<open>time.sleep\<close> returns there.
\<close>

definition pacing_ok :: "'u system \<Rightarrow> bool" where
  "pacing_ok s =
     (clock (env s) - last_request_time (fst (get_rate_limiter s))
        < min_interval (fst (get_rate_limiter s))
      \<longrightarrow> target (fst (get_rate_limiter s)) (env s)
            - (clock (env s) - last_request_time (fst (get_rate_limiter s)))
          \<le> sleep_max (env s))"



section \<open>Properties\<close>

subsection \<open>Facts about the world operations\<close>

lemma invocations_time_sleep [simp]: "invocations (time_sleep d w) = invocations w"
  by (simp add: invocations_def time_sleep_def)

lemma upstream_time_sleep [simp]: "upstream (time_sleep d w) = upstream w"
  by (simp add: time_sleep_def)

lemma sleeps_time_sleep [simp]: "sleeps (time_sleep d w) = sleeps w @ [d]"
  by (simp add: sleeps_def time_sleep_def)

lemma time_sleep_keeps [simp]:
  "rnd (time_sleep d w) = rnd w"
  "sleep_max (time_sleep d w) = sleep_max w"
  by (simp_all add: time_sleep_def)

lemma calculate_delay_world [simp]:
  "invocations (snd (calculate_delay h k w)) = invocations w"
  "upstream (snd (calculate_delay h k w)) = upstream w"
  "sleeps (snd (calculate_delay h k w)) = sleeps w"
  "rnd (snd (calculate_delay h k w)) = rnd w"
  "sleep_max (snd (calculate_delay h k w)) = sleep_max w"
  by (simp_all add: calculate_delay_def random_uniform_def invocations_def sleeps_def Let_def)

lemma invoke_world:
  "invocations (snd (invoke func w)) = Suc (invocations w)"
  "upstream (snd (invoke func w)) = snd (func (upstream w))"
  "sleeps (snd (invoke func w)) = sleeps w"
  "clock (snd (invoke func w)) = clock w"
  "fst (invoke func w) = fst (func (upstream w))"
  "rnd (snd (invoke func w)) = rnd w"
  "sleep_max (snd (invoke func w)) = sleep_max w"
  by (simp_all add: invoke_def invocations_def sleeps_def split: prod.splits)

lemma timeout_retryable: "is_retryable_error timeout_error"
  by (simp add: timeout_error_def is_retryable_error_def lower_def lower_char_def
        retryable_keywords_def)

lemma value_error_not_retryable: "\<not> is_retryable_error value_error"
  by (simp add: value_error_def is_retryable_error_def lower_def lower_char_def
        retryable_keywords_def)

lemma interrupt_retryable_text: "is_retryable_error interrupt"
  by (simp add: interrupt_def is_retryable_error_def lower_def lower_char_def
        retryable_keywords_def)

lemma timeout_is_exception: "is_Exception timeout_error"
  by (simp add: timeout_error_def)

lemma interrupt_no_exception: "\<not> is_Exception interrupt"
  by (simp add: interrupt_def)

lemma always_timeout_fails: "fails_for always_timeout n u"
  by (induction n arbitrary: u)
     (simp_all add: always_timeout_def timeout_retryable timeout_is_exception)

lemma sleep_or_raise_ok:
  assumes "0 \<le> d" and "d \<le> sleep_max w"
  shows "sleep_or_raise d w = Inr (time_sleep d w)"
  using assms by (simp add: sleep_or_raise_def)


lemma backoff_ok_same:
  assumes "rnd w' = rnd w" and "sleep_max w' = sleep_max w"
  shows "backoff_ok h w' = backoff_ok h w"
  using assms by (simp add: backoff_ok_def)

subsection \<open>Backoff delay\<close>

text \<open>
  C2, as stated, fails: the cap is applied before the jitter is added, so with
  randomization on the delay can exceed \<open>max_delay\<close>. For the default handler
  (base 5, cap 60) and attempt 4 with the smallest jitter 1 the delay is 61, where
  the stated formula gives 60. For attempt 1024 no delay is computed at all: the
  conversion of \<^verbatim>\<open>2 ** 1024\<close> to a float raises OverflowError.
\<close>

theorem calculate_delay_cap_counterexample:
  "fst (calculate_delay (RetryHandler_init 3 5 60 True) 4 (plain_world 0 0 ())) = Inr 61
   \<and> min (base_delay (RetryHandler_init 3 5 60 True) * pow2 4
            + fst (random_uniform 1 3 (plain_world 0 0 ())))
          (max_delay (RetryHandler_init 3 5 60 True)) = 60
   \<and> max_delay (RetryHandler_init 3 5 60 True) = 60
   \<and> fst (calculate_delay (RetryHandler_init 3 5 60 True) 1024 (plain_world 0 0 ()))
       = Inl int_too_large"
  by (simp add: calculate_delay_def RetryHandler_init_def plain_world_def random_uniform_def
        pow2_def)

text \<open>
  C2 (amended): for every handler and every attempt index \<open>k\<close> from 0 to 1023 the
  delay is \<open>min (base_delay * 2 ^ k) max_delay\<close> plus the jitter, where the jitter is
  the value of \<^verbatim>\<open>random.uniform(1, 3)\<close> when randomization is enabled and 0
  otherwise. So the delay never exceeds \<open>max_delay\<close> plus the jitter, and without
  randomization it never exceeds \<open>max_delay\<close>. From \<open>k = 1024\<close> on
  \<^verbatim>\<open>calculate_delay\<close> raises OverflowError.
\<close>

theorem calculate_delay_cap_then_jitter:
  assumes "0 \<le> k"
  shows "fst (calculate_delay h k w) =
           (if k < 1024
            then Inr (min (base_delay h * 2 ^ nat k) (max_delay h)
                        + (if rh_enable_random h then fst (random_uniform 1 3 w) else 0))
            else Inl int_too_large)
       \<and> (k < 1024 \<and> \<not> rh_enable_random h \<longrightarrow>
            (\<exists>d. fst (calculate_delay h k w) = Inr d \<and> d \<le> max_delay h))
       \<and> (k < 1024 \<and> rh_enable_random h \<longrightarrow>
            (\<exists>d. fst (calculate_delay h k w) = Inr d
                 \<and> d \<le> max_delay h + fst (random_uniform 1 3 w)))"
  using assms
  by (auto simp add: calculate_delay_def random_uniform_def pow2_def Let_def split: prod.splits)

theorem calculate_delay_cap_then_jitter_witness:
  "fst (calculate_delay (RetryHandler_init 3 5 60 True) 4 (plain_world 0 (1/2) ())) = Inr 62
   \<and> fst (calculate_delay (RetryHandler_init 3 5 60 False) 2 (plain_world 0 (1/2) ())) = Inr 20
   \<and> fst (calculate_delay (RetryHandler_init 3 5 60 False) 2000 (plain_world 0 (1/2) ()))
       = Inl int_too_large"
proof -
  have a: "(0::int) \<le> 4" and b: "(0::int) \<le> 2" and c: "(0::int) \<le> 2000" by simp_all
  show ?thesis
    using calculate_delay_cap_then_jitter [OF a, of "RetryHandler_init 3 5 60 True"
            "plain_world 0 (1/2) ()"]
          calculate_delay_cap_then_jitter [OF b, of "RetryHandler_init 3 5 60 False"
            "plain_world 0 (1/2) ()"]
          calculate_delay_cap_then_jitter [OF c, of "RetryHandler_init 3 5 60 False"
            "plain_world 0 (1/2) ()"]
    by (simp add: RetryHandler_init_def random_uniform_def plain_world_def)
qed

subsection \<open>Retrying\<close>

lemma fails_for_SucD:
  assumes "fails_for func (Suc n) u"
  obtains e u' where "func u = (Inl e, u')" and "is_Exception e" and "is_retryable_error e"
    and "fails_for func n u'"
  using assms by (cases "func u") (auto split: sum.splits)

lemma fails_for_last:
  assumes "fails_for func (Suc r) u"
  shows "\<exists>e. fst (func (upstream_after func r u)) = Inl e \<and> is_Exception e
             \<and> is_retryable_error e"
  using assms
proof (induction r arbitrary: u)
  case 0
  from 0 obtain e u' where "func u = (Inl e, u')" "is_Exception e" "is_retryable_error e"
    by (rule fails_for_SucD)
  then show ?case by simp
next
  case (Suc r)
  from Suc.prems obtain e u' where f: "func u = (Inl e, u')" "fails_for func (Suc r) u'"
    by (rule fails_for_SucD)
  from Suc.IH[OF f(2)] f(1) show ?case by simp
qed

lemma backoff_sleeps:
  assumes "backoff_ok h w" and "0 \<le> k" and "k < max_retries h"
  shows "\<exists>d. fst (calculate_delay h k w) = Inr d
             \<and> sleep_or_raise d (snd (calculate_delay h k w))
                 = Inr (time_sleep d (snd (calculate_delay h k w)))"
proof -
  let ?u = "rnd w (rnd_pos w)"
  from assms have k: "k < 1024" and b: "0 \<le> base_delay h" and m: "0 \<le> max_delay h"
    and s: "max_delay h + 3 \<le> sleep_max w" and u: "0 \<le> ?u" "?u \<le> 1"
    by (simp_all add: backoff_ok_def)
  let ?c = "min (base_delay h * pow2 k) (max_delay h)"
  have p: "0 \<le> pow2 k" by (simp add: pow2_def)
  have c0: "0 \<le> ?c" using b m p by simp
  have c1: "?c \<le> max_delay h" by simp
  show ?thesis
  proof (cases "rh_enable_random h")
    case True
    have v: "calculate_delay h k w = (Inr (?c + (1 + 2 * ?u)), w\<lparr>rnd_pos := Suc (rnd_pos w)\<rparr>)"
      using True k by (simp add: calculate_delay_def random_uniform_def Let_def)
    have "0 \<le> ?c + (1 + 2 * ?u)" "?c + (1 + 2 * ?u) \<le> sleep_max (w\<lparr>rnd_pos := Suc (rnd_pos w)\<rparr>)"
      using c0 c1 s u by simp_all
    from sleep_or_raise_ok[OF this] show ?thesis unfolding v by simp
  next
    case False
    have v: "calculate_delay h k w = (Inr ?c, w)"
      using False k by (simp add: calculate_delay_def Let_def)
    have "0 \<le> ?c" "?c \<le> sleep_max w" using c0 c1 s by simp_all
    from sleep_or_raise_ok[OF this] show ?thesis unfolding v by simp
  qed
qed

text \<open>
  The loop on a thunk whose next \<open>r + 1\<close> invocations raise a retryable error, with
  \<open>r + 1\<close> iterations left and every backoff computable and sleepable: it invokes
  the thunk \<open>r + 1\<close> times, sleeps \<open>r\<close> times and raises the error of the last
  invocation.
\<close>

lemma execute_loop_exhaust:
  assumes "int k + int r = max_retries h"
    and "fails_for func (Suc r) (upstream w)" and "backoff_ok h w"
  shows "fst (execute_loop h func k (Suc r) le w) = fst (func (upstream_after func r (upstream w)))
       \<and> invocations (snd (execute_loop h func k (Suc r) le w)) = invocations w + Suc r
       \<and> length (sleeps (snd (execute_loop h func k (Suc r) le w))) = length (sleeps w) + r"
  using assms
proof (induction r arbitrary: k le w)
  case 0
  from 0(2) obtain e u' where f: "func (upstream w) = (Inl e, u')" "is_Exception e"
    "is_retryable_error e" by (rule fails_for_SucD)
  obtain res w1 where inv: "invoke func w = (res, w1)" by (cases "invoke func w")
  from inv f have res: "res = Inl e" using invoke_world(5)[of func w] by simp
  from inv have w1: "invocations w1 = Suc (invocations w)" "sleeps w1 = sleeps w"
    using invoke_world(1,3)[of func w] by simp_all
  from 0 have "\<not> int k < max_retries h" by simp
  then show ?case using inv res f w1 by simp
next
  case (Suc r)
  from Suc.prems(2) obtain e u' where f: "func (upstream w) = (Inl e, u')" "is_Exception e"
    "is_retryable_error e" "fails_for func (Suc r) u'" by (rule fails_for_SucD)
  obtain res w1 where inv: "invoke func w = (res, w1)" by (cases "invoke func w")
  from inv f have res: "res = Inl e" using invoke_world(5)[of func w] by simp
  from inv f have w1: "invocations w1 = Suc (invocations w)" "sleeps w1 = sleeps w"
     "upstream w1 = u'" "rnd w1 = rnd w" "sleep_max w1 = sleep_max w"
    using invoke_world(1,2,3,6,7)[of func w] by simp_all
  from Suc.prems(1) have lt: "int k < max_retries h"
    and nxt: "int (Suc k) + int r = max_retries h" by simp_all
  have ok1: "backoff_ok h w1" using Suc.prems(3) backoff_ok_same[OF w1(4,5)] by simp
  obtain r' w2 where cd: "calculate_delay h (int k) w1 = (r', w2)"
    by (cases "calculate_delay h (int k) w1")
  from backoff_sleeps[OF ok1 _ lt] cd obtain d where
    d: "r' = Inr d" "sleep_or_raise d w2 = Inr (time_sleep d w2)" by auto
  from cd have w2: "invocations w2 = invocations w1" "upstream w2 = upstream w1"
      "sleeps w2 = sleeps w1" "rnd w2 = rnd w1" "sleep_max w2 = sleep_max w1"
    using calculate_delay_world[of h "int k" w1] by simp_all
  have ok3: "backoff_ok h (time_sleep d w2)"
    using ok1 backoff_ok_same[of "time_sleep d w2" w1 h] w2 by simp
  have f3: "fails_for func (Suc r) (upstream (time_sleep d w2))"
    using f(4) w1 w2 by simp
  have step: "execute_loop h func k (Suc (Suc r)) le w
                = execute_loop h func (Suc k) (Suc r) (Some e) (time_sleep d w2)"
    using inv res f lt cd d by simp
  show ?case
    unfolding step using Suc.IH[OF nxt f3 ok3, of "Some e"] w1 w2 f(1)
    by simp
qed

lemma execute_exhaust:
  assumes "fails_for func (Suc (nat (max_retries h))) (upstream w)"
    and "0 \<le> max_retries h" and "backoff_ok h w"
  shows "invocations (snd (execute h func w)) = invocations w + nat (max_retries h) + 1"
    and "fst (execute h func w) = fst (func (upstream_after func (nat (max_retries h)) (upstream w)))"
    and "\<exists>e. fst (execute h func w) = Inl e \<and> is_retryable_error e"
    and "length (sleeps (snd (execute h func w))) = length (sleeps w) + nat (max_retries h)"
proof -
  have n: "nat (max_retries h + 1) = Suc (nat (max_retries h))" using assms(2) by simp
  have kr: "int 0 + int (nat (max_retries h)) = max_retries h" using assms(2) by simp
  from fails_for_last[OF assms(1)] obtain e where e:
    "fst (func (upstream_after func (nat (max_retries h)) (upstream w))) = Inl e"
    "is_retryable_error e" by blast
  note ex = execute_loop_exhaust[OF kr assms(1,3), of None]
  show "invocations (snd (execute h func w)) = invocations w + nat (max_retries h) + 1"
    unfolding execute_def n using ex by simp
  show "fst (execute h func w) = fst (func (upstream_after func (nat (max_retries h)) (upstream w)))"
    unfolding execute_def n using ex by simp
  then show "\<exists>e. fst (execute h func w) = Inl e \<and> is_retryable_error e"
    using e by simp
  show "length (sleeps (snd (execute h func w))) = length (sleeps w) + nat (max_retries h)"
    unfolding execute_def n using ex by simp
qed

text \<open>
  With more than 1024 retries allowed the loop reaches attempt 1024, where the delay
  cannot be computed: the OverflowError of \<^verbatim>\<open>calculate_delay\<close> leaves the loop after
  1025 invocations.
\<close>

lemma calculate_delay_max_retries:
  "calculate_delay (h\<lparr>max_retries := m\<rparr>) k w = calculate_delay h k w"
  by (simp add: calculate_delay_def)

lemma execute_loop_overflow:
  assumes "int k + int r = 1024" and "1024 < max_retries h"
    and "fails_for func (Suc r) (upstream w)"
    and "backoff_ok (h\<lparr>max_retries := 1024\<rparr>) w"
  shows "fst (execute_loop h func k (Suc r + m) le w) = Inl int_too_large
       \<and> invocations (snd (execute_loop h func k (Suc r + m) le w)) = invocations w + Suc r"
  using assms(1,3,4)
proof (induction r arbitrary: k le w)
  case 0
  from 0(2) obtain e u' where f: "func (upstream w) = (Inl e, u')" "is_Exception e"
    "is_retryable_error e" by (rule fails_for_SucD)
  obtain res w1 where inv: "invoke func w = (res, w1)" by (cases "invoke func w")
  from inv f have res: "res = Inl e" using invoke_world(5)[of func w] by simp
  from inv have w1: "invocations w1 = Suc (invocations w)"
    using invoke_world(1)[of func w] by simp
  from 0(1) have k: "int k = 1024" by simp
  then have lt: "int k < max_retries h" using assms(2) by simp
  have cd: "calculate_delay h (int k) w1 = (Inl int_too_large, w1)"
    using k by (simp add: calculate_delay_def)
  show ?case using inv res f lt cd w1 by simp
next
  case (Suc r)
  from Suc.prems(2) obtain e u' where f: "func (upstream w) = (Inl e, u')" "is_Exception e"
    "is_retryable_error e" "fails_for func (Suc r) u'" by (rule fails_for_SucD)
  obtain res w1 where inv: "invoke func w = (res, w1)" by (cases "invoke func w")
  from inv f have res: "res = Inl e" using invoke_world(5)[of func w] by simp
  from inv f have w1: "invocations w1 = Suc (invocations w)"
     "upstream w1 = u'" "rnd w1 = rnd w" "sleep_max w1 = sleep_max w"
    using invoke_world(1,2,6,7)[of func w] by simp_all
  from Suc.prems(1) have k: "int k < 1024" and nxt: "int (Suc k) + int r = 1024" by simp_all
  from k assms(2) have lt: "int k < max_retries h" by simp
  let ?h = "h\<lparr>max_retries := 1024\<rparr>"
  have ok1: "backoff_ok ?h w1" using Suc.prems(3) backoff_ok_same[OF w1(3,4)] by simp
  obtain r' w2 where cd: "calculate_delay h (int k) w1 = (r', w2)"
    by (cases "calculate_delay h (int k) w1")
  have "int k < max_retries ?h" using k by simp
  from backoff_sleeps[OF ok1 _ this] cd obtain d where
    d: "r' = Inr d" "sleep_or_raise d w2 = Inr (time_sleep d w2)"
    by (auto simp add: calculate_delay_max_retries)
  from cd have w2: "invocations w2 = invocations w1" "upstream w2 = upstream w1"
      "rnd w2 = rnd w1" "sleep_max w2 = sleep_max w1"
    using calculate_delay_world[of h "int k" w1] by simp_all
  have ok3: "backoff_ok ?h (time_sleep d w2)"
    using ok1 backoff_ok_same[of "time_sleep d w2" w1 ?h] w2 by simp
  have f3: "fails_for func (Suc r) (upstream (time_sleep d w2))"
    using f(4) w1 w2 by simp
  have step: "execute_loop h func k (Suc (Suc r) + m) le w
                = execute_loop h func (Suc k) (Suc r + m) (Some e) (time_sleep d w2)"
    using inv res f lt cd d by simp
  show ?case
    unfolding step using Suc.IH[OF nxt f3 ok3, of "Some e"] w1 w2
    by simp
qed

text \<open>
  C5, as stated, fails, in three ways. With a negative \<open>base_delay\<close> and no jitter the
  first backoff is negative and \<^verbatim>\<open>time.sleep\<close> raises ValueError after a single
  invocation. A thunk that raises a \<^verbatim>\<open>KeyboardInterrupt\<close> whose text names a timeout
  is never retried, since the handler catches \<^verbatim>\<open>Exception\<close> only. With
  \<open>max_retries = 1030\<close> and the default delays the handler raises OverflowError after
  1025 invocations, not the timeout after 1031.
\<close>

theorem execute_retries_counterexample:
  "fst (execute (RetryHandler_init 3 (- 5) 60 False) always_timeout (plain_world 0 0 0))
     = Inl (Exn True ''ValueError'' ''sleep length must be non-negative'')
   \<and> invocations (snd (execute (RetryHandler_init 3 (- 5) 60 False) always_timeout
                          (plain_world 0 0 0))) = 1
   \<and> fst (execute (RetryHandler_init 3 5 60 True) always_interrupted (plain_world 0 0 0))
       = Inl interrupt
   \<and> is_retryable_error interrupt
   \<and> invocations (snd (execute (RetryHandler_init 3 5 60 True) always_interrupted
                          (plain_world 0 0 0))) = 1
   \<and> fst (execute (RetryHandler_init 1030 5 60 True) always_timeout (plain_world 0 0 0))
       = Inl int_too_large
   \<and> invocations (snd (execute (RetryHandler_init 1030 5 60 True) always_timeout
                          (plain_world 0 0 0))) = 1025"
proof -
  have small: "fst (execute (RetryHandler_init 3 (- 5) 60 False) always_timeout (plain_world 0 0 0))
       = Inl (Exn True ''ValueError'' ''sleep length must be non-negative'')
     \<and> invocations (snd (execute (RetryHandler_init 3 (- 5) 60 False) always_timeout
                            (plain_world 0 0 0))) = 1
     \<and> fst (execute (RetryHandler_init 3 5 60 True) always_interrupted (plain_world 0 0 0))
         = Inl interrupt
     \<and> is_retryable_error interrupt
     \<and> invocations (snd (execute (RetryHandler_init 3 5 60 True) always_interrupted
                            (plain_world 0 0 0))) = 1"
    by (simp add: execute_def RetryHandler_init_def plain_world_def numeral_eq_Suc invoke_def
          always_timeout_def always_interrupted_def timeout_retryable interrupt_retryable_text
          timeout_is_exception interrupt_no_exception
          calculate_delay_def pow2_def sleep_or_raise_def invocations_def Let_def)
  let ?h = "RetryHandler_init 1030 5 60 True"
  have n: "nat (max_retries ?h + 1) = Suc 1024 + 6" by (simp add: RetryHandler_init_def)
  have a: "int 0 + int 1024 = 1024" by simp
  have b: "1024 < max_retries ?h" by (simp add: RetryHandler_init_def)
  have c: "backoff_ok (?h\<lparr>max_retries := 1024\<rparr>) (plain_world 0 0 (0::nat))"
    by (simp add: backoff_ok_def RetryHandler_init_def plain_world_def)
  have large: "fst (execute ?h always_timeout (plain_world 0 0 0)) = Inl int_too_large
     \<and> invocations (snd (execute ?h always_timeout (plain_world 0 0 0))) = 1025"
    unfolding execute_def n
    using execute_loop_overflow[OF a b always_timeout_fails c, of 6 None]
    by (simp add: plain_world_def invocations_def)
  from small large show ?thesis by simp
qed

text \<open>
  C5 (amended): let the handler have \<open>0 \<le> max_retries = n \<le> 1024\<close>, a \<open>base_delay\<close>
  and a \<open>max_delay\<close> that are not negative and \<open>max_delay + 3\<close> within the range of
  sleeps the platform accepts, and let each of the first \<open>n + 1\<close> invocations of the
  thunk raise an \<^verbatim>\<open>Exception\<close> that is retryable (as a thunk does that fails so on
  every invocation). Then \<open>execute\<close> invokes the thunk exactly \<open>n + 1\<close> times and
  raises the error of the last invocation, which is retryable: the failure is not
  swallowed. Between the attempts it sleeps \<open>n\<close> times. For \<open>n = 0\<close> this is one
  invocation.
\<close>

theorem execute_exhausts_retries:
  assumes "fails_for func (Suc (nat (max_retries h))) (upstream w)"
    and "0 \<le> max_retries h" and "backoff_ok h w"
  shows "invocations (snd (execute h func w)) = invocations w + nat (max_retries h) + 1
       \<and> fst (execute h func w)
           = fst (func (upstream_after func (nat (max_retries h)) (upstream w)))
       \<and> (\<exists>e. fst (execute h func w) = Inl e \<and> is_retryable_error e)
       \<and> length (sleeps (snd (execute h func w))) = length (sleeps w) + nat (max_retries h)"
  using execute_exhaust[OF assms] by simp

lemma backoff_ok_plain:
  "backoff_ok (RetryHandler_init 3 5 60 True) (plain_world t 0 u)"
  "backoff_ok (RetryHandler_init 0 5 60 True) (plain_world t 0 u)"
  by (simp_all add: backoff_ok_def RetryHandler_init_def plain_world_def)

theorem execute_exhausts_retries_witness:
  "invocations (snd (execute (RetryHandler_init 3 5 60 True) always_timeout (plain_world 0 0 0))) = 4
   \<and> fst (execute (RetryHandler_init 3 5 60 True) always_timeout (plain_world 0 0 0))
       = Inl timeout_error
   \<and> invocations (snd (execute (RetryHandler_init 0 5 60 True) always_timeout (plain_world 0 0 0))) = 1"
proof -
  have a: "0 \<le> max_retries (RetryHandler_init 3 5 60 True)"
    and b: "0 \<le> max_retries (RetryHandler_init 0 5 60 True)"
    by (simp_all add: RetryHandler_init_def)
  show ?thesis
    using execute_exhausts_retries [OF always_timeout_fails a backoff_ok_plain(1), of 0 0]
          execute_exhausts_retries [OF always_timeout_fails b backoff_ok_plain(2), of 0 0]
    by (simp add: RetryHandler_init_def plain_world_def invocations_def always_timeout_def
          numeral_eq_Suc)
qed

text \<open>
  C6: when the first invocation of the thunk raises an error that is not retryable,
  \<open>execute\<close> (with \<open>max_retries \<ge> 0\<close>, so that the thunk is invoked at all) raises
  that error after this single invocation; nothing is slept and the clock is where
  it was.
\<close>


theorem execute_non_retryable_short_circuit:
  assumes "func (upstream w) = (Inl e, u')" and "\<not> is_retryable_error e"
    and "0 \<le> max_retries h"
  shows "execute h func w = (Inl e, w\<lparr>trace := trace w @ [Invoke], upstream := u'\<rparr>)
       \<and> invocations (snd (execute h func w)) = invocations w + 1
       \<and> sleeps (snd (execute h func w)) = sleeps w
       \<and> clock (snd (execute h func w)) = clock w"
proof -
  have n: "nat (max_retries h + 1) = Suc (nat (max_retries h))" using assms(3) by simp
  have "execute h func w = (Inl e, w\<lparr>trace := trace w @ [Invoke], upstream := u'\<rparr>)"
    unfolding execute_def n using assms(1,2) by (simp add: invoke_def)
  then show ?thesis by (simp add: invocations_def sleeps_def)
qed

theorem execute_non_retryable_short_circuit_witness:
  "fst (execute (RetryHandler_init 3 5 60 True) always_malformed (plain_world 7 0 0))
     = Inl value_error
   \<and> invocations (snd (execute (RetryHandler_init 3 5 60 True) always_malformed (plain_world 7 0 0))) = 1
   \<and> sleeps (snd (execute (RetryHandler_init 3 5 60 True) always_malformed (plain_world 7 0 0))) = []
   \<and> clock (snd (execute (RetryHandler_init 3 5 60 True) always_malformed (plain_world 7 0 0))) = 7"
proof -
  have a: "always_malformed (upstream (plain_world 7 0 0)) = (Inl value_error, Suc 0)"
    by (simp add: always_malformed_def plain_world_def)
  have b: "0 \<le> max_retries (RetryHandler_init 3 5 60 True)"
    by (simp add: RetryHandler_init_def)
  show ?thesis
    using execute_non_retryable_short_circuit
            [of always_malformed "plain_world 7 0 0" value_error "Suc 0"
                "RetryHandler_init 3 5 60 True", OF a value_error_not_retryable b]
    by (simp add: plain_world_def invocations_def sleeps_def)
qed

subsection \<open>The singletons\<close>

lemma get_rate_limiter_keeps [simp]:
  "env (snd (get_rate_limiter s)) = env s"
  "g_retry_handler (snd (get_rate_limiter s)) = g_retry_handler s"
  "g_cache (snd (get_rate_limiter s)) = g_cache s"
  "g_source_router (snd (get_rate_limiter s)) = g_source_router s"
  by (simp_all add: get_rate_limiter_def Let_def split: option.splits)

lemma get_retry_handler_keeps [simp]:
  "env (snd (get_retry_handler s)) = env s"
  "g_rate_limiter (snd (get_retry_handler s)) = g_rate_limiter s"
  "g_cache (snd (get_retry_handler s)) = g_cache s"
  "g_source_router (snd (get_retry_handler s)) = g_source_router s"
  by (simp_all add: get_retry_handler_def Let_def split: option.splits)

lemma get_cache_keeps [simp]:
  "env (snd (get_cache s)) = env s"
  "g_rate_limiter (snd (get_cache s)) = g_rate_limiter s"
  "g_retry_handler (snd (get_cache s)) = g_retry_handler s"
  "g_source_router (snd (get_cache s)) = g_source_router s"
  by (simp_all add: get_cache_def Let_def split: option.splits)

lemma get_retry_handler_reads [simp]:
  "fst (get_retry_handler (s\<lparr>g_rate_limiter := x, env := y\<rparr>)) = fst (get_retry_handler s)"
  "fst (get_retry_handler (s\<lparr>g_cache := z\<rparr>)) = fst (get_retry_handler s)"
  "fst (get_retry_handler (snd (get_rate_limiter s))) = fst (get_retry_handler s)"
  "fst (get_retry_handler (snd (get_cache s))) = fst (get_retry_handler s)"
  by (simp_all add: get_retry_handler_def get_rate_limiter_def get_cache_def Let_def
        split: option.splits)

lemma get_rate_limiter_reads [simp]:
  "fst (get_rate_limiter (s\<lparr>g_cache := z\<rparr>)) = fst (get_rate_limiter s)"
  "fst (get_rate_limiter (snd (get_cache s))) = fst (get_rate_limiter s)"
  by (simp_all add: get_rate_limiter_def get_cache_def Let_def split: option.splits)

subsection \<open>The cache\<close>

text \<open>
  C7: \<open>DataCache_get\<close> returns the stored value exactly when the key is present and
  the current time is strictly before the entry's expiry, and then leaves the cache
  as it is. At or past the expiry it returns \<open>PNone\<close> and the cache it leaves behind
  has the entry removed (and nothing else changed). For an absent key it returns
  \<open>PNone\<close>. Whatever is returned other than \<open>PNone\<close> is the value of an entry that
  has not expired.
\<close>

theorem DataCache_get_never_stale:
  "(\<forall>v e. entries c key = Some (v, e) \<and> now < e \<longrightarrow> DataCache_get c now key = (v, c))
   \<and> (\<forall>v e. entries c key = Some (v, e) \<and> \<not> now < e \<longrightarrow>
         DataCache_get c now key = (PNone, c\<lparr>entries := (entries c)(key := None)\<rparr>)
         \<and> entries (snd (DataCache_get c now key)) key = None)
   \<and> (entries c key = None \<longrightarrow> DataCache_get c now key = (PNone, c))
   \<and> (fst (DataCache_get c now key) \<noteq> PNone \<longrightarrow>
         (\<exists>e. entries c key = Some (fst (DataCache_get c now key), e) \<and> now < e))"
  by (auto simp add: DataCache_get_def split: option.splits)

theorem DataCache_get_never_stale_witness:
  "fst (DataCache_get \<lparr>ttl_seconds = 1, entries = [''k'' \<mapsto> (PInt 7, 10)]\<rparr> 9 ''k'') = PInt 7
   \<and> fst (DataCache_get \<lparr>ttl_seconds = 1, entries = [''k'' \<mapsto> (PInt 7, 10)]\<rparr> 10 ''k'') = PNone
   \<and> entries (snd (DataCache_get \<lparr>ttl_seconds = 1, entries = [''k'' \<mapsto> (PInt 7, 10)]\<rparr> 10 ''k''))
        ''k'' = None
   \<and> fst (DataCache_get \<lparr>ttl_seconds = 1, entries = [''k'' \<mapsto> (PInt 7, 10)]\<rparr> 9 ''j'') = PNone"
  using DataCache_get_never_stale
          [of "\<lparr>ttl_seconds = 1, entries = [''k'' \<mapsto> (PInt 7, 10)]\<rparr>" "''k''" 9]
        DataCache_get_never_stale
          [of "\<lparr>ttl_seconds = 1, entries = [''k'' \<mapsto> (PInt 7, 10)]\<rparr>" "''k''" 10]
        DataCache_get_never_stale
          [of "\<lparr>ttl_seconds = 1, entries = [''k'' \<mapsto> (PInt 7, 10)]\<rparr>" "''j''" 9]
  by simp

lemma DataCache_set_storable:
  assumes "storable now (ttl_seconds c)"
  shows "DataCache_set c now key val
           = Inr (c\<lparr>entries := (entries c)(key \<mapsto> (val, now + real_of_int (ttl_seconds c)))\<rparr>)"
proof -
  from assms have d: "- 999999999 \<le> ttl_seconds c div 86400" "ttl_seconds c div 86400 \<le> 999999999"
    and r: "datetime_min \<le> now + real_of_int (ttl_seconds c)"
           "now + real_of_int (ttl_seconds c) < datetime_end"
    by (simp_all add: storable_def)
  from d have t: "timedelta_seconds (ttl_seconds c) = Inr (ttl_seconds c)"
    by (simp add: timedelta_seconds_def)
  from r have a: "datetime_add now (ttl_seconds c) = Inr (now + real_of_int (ttl_seconds c))"
    by (simp add: datetime_add_def)
  show ?thesis by (simp add: DataCache_set_def t a)
qed

lemma DataCache_set_overflow:
  assumes "\<not> storable now (ttl_seconds c)"
  shows "\<exists>e. DataCache_set c now key val = Inl e \<and> is_Exception e
             \<and> exn_class e = ''OverflowError''"
  using assms
  by (auto simp add: DataCache_set_def storable_def timedelta_seconds_def datetime_add_def
        Let_def)

lemma DataCache_set_result:
  assumes "DataCache_set c now key val = Inr c'"
  shows "c' = c\<lparr>entries := (entries c)(key \<mapsto> (val, now + real_of_int (ttl_seconds c)))\<rparr>"
proof (cases "storable now (ttl_seconds c)")
  case True
  from DataCache_set_storable[OF True, of key val] assms show ?thesis by simp
next
  case False
  from DataCache_set_overflow[OF False, of key val] assms show ?thesis by auto
qed

lemma store_result_keeps [simp]:
  "env (snd (store_result ttl key out s)) = env s"
  "g_rate_limiter (snd (store_result ttl key out s)) = g_rate_limiter s"
  "g_retry_handler (snd (store_result ttl key out s)) = g_retry_handler s"
  "g_source_router (snd (store_result ttl key out s)) = g_source_router s"
  by (simp_all add: store_result_def Let_def case_prod_beta split: sum.splits)

lemma store_result_stored:
  assumes "fst (store_result ttl key val s) = Inr out"
  shows "out = val
       \<and> (\<exists>c. g_cache (snd (store_result ttl key val s)) = Some c \<and> ttl_seconds c = ttl
               \<and> entries c key = Some (val, clock (env s) + real_of_int ttl))"
proof -
  let ?c1 = "(fst (get_cache s))\<lparr>ttl_seconds := ttl\<rparr>"
  obtain r where r: "DataCache_set ?c1 (clock (env s)) key val = r" by simp
  show ?thesis
  proof (cases r)
    case (Inl e)
    with assms r show ?thesis by (simp add: store_result_def Let_def case_prod_beta)
  next
    case (Inr c2)
    with r have "c2 = ?c1\<lparr>entries := (entries ?c1)(key \<mapsto> (val, clock (env s) + real_of_int (ttl_seconds ?c1)))\<rparr>"
      using DataCache_set_result by blast
    with assms r Inr show ?thesis by (simp add: store_result_def Let_def case_prod_beta)
  qed
qed

lemma get_spot_miss_caches:
  assumes "fst (get_spot_miss fetch_tx symbol source True s) = Inr out"
  shows "\<exists>c. g_cache (snd (get_spot_miss fetch_tx symbol source True s)) = Some c
             \<and> ttl_seconds c = 30
             \<and> entries c (spot_key symbol source)
                 = Some (out, clock (env (snd (get_spot_miss fetch_tx symbol source True s))) + 30)"
  using assms
  by (auto simp add: get_spot_miss_def Let_def case_prod_beta
           split: sum.splits dest: store_result_stored)

lemma get_hist_miss_caches:
  assumes "fst (get_hist_miss fetch_tx_hist symbol start end_date period adjust source True s)
             = Inr out"
  shows "\<exists>c. g_cache (snd (get_hist_miss fetch_tx_hist symbol start end_date period adjust source
                               True s)) = Some c
             \<and> ttl_seconds c = 3600
             \<and> entries c (hist_key symbol start end_date period adjust)
                 = Some (out,
                         clock (env (snd (get_hist_miss fetch_tx_hist symbol start end_date period
                                            adjust source True s))) + 3600)"
  using assms
  by (auto simp add: get_hist_miss_def Let_def case_prod_beta
           split: sum.splits dest: store_result_stored)

text \<open>
  C3, as stated, fails: \<open>DataCache_set\<close> has no time-to-live argument. The expiry it
  stores is the current time plus the cache's own field \<open>ttl_seconds\<close>, which the
  callers overwrite on the shared cache. One and the same call, \<^verbatim>\<open>set("k", 1)\<close> at
  time 100, stores the expiry 400 on a cache built with 300 seconds and the expiry
  130 on that cache once a spot request has been answered, because \<^verbatim>\<open>get_spot\<close> has
  left \<open>ttl_seconds\<close> at 30.
\<close>

theorem DataCache_set_per_call_ttl_counterexample:
  "DataCache_set (DataCache_init 300) 100 ''k'' (PInt 1)
     = Inr \<lparr>ttl_seconds = 300, entries = [''k'' \<mapsto> (PInt 1, 400)]\<rparr>
   \<and> g_cache (snd (get_spot fetch_tx_ok ''600000'' ''tx'' True (fresh_system (plain_world 5 0 0))))
     = Some \<lparr>ttl_seconds = 30,
             entries = [spot_key ''600000'' ''tx'' \<mapsto>
                          (PDict [(''symbol'', PStr ''600000''), (''source'', PStr ''tx''),
                                  (''quote'', quote_ok)], 35)]\<rparr>
   \<and> (case DataCache_set
              \<lparr>ttl_seconds = 30,
               entries = [spot_key ''600000'' ''tx'' \<mapsto>
                            (PDict [(''symbol'', PStr ''600000''), (''source'', PStr ''tx''),
                                    (''quote'', quote_ok)], 35)]\<rparr>
              100 ''k'' (PInt 1) of
         Inl e \<Rightarrow> None
       | Inr c \<Rightarrow> entries c ''k'') = Some (PInt 1, 130)"
  by (simp add: get_spot_def get_spot_miss_def fresh_system_def plain_world_def get_cache_def
        DataCache_init_def DataCache_get_def DataCache_set_def timedelta_seconds_def
        datetime_add_def datetime_min_def datetime_end_def spot_key_def
        get_rate_limiter_def RateLimiter_init_def wait_def get_retry_handler_def
        RetryHandler_init_def execute_def numeral_eq_Suc invoke_def fetch_tx_ok_def
        store_result_def Let_def)

text \<open>
  C3 (amended): \<open>DataCache_set\<close> takes key and value only. When the expiry
  \<open>now + ttl_seconds\<close>, with \<open>ttl_seconds\<close> the field of the cache, is a datetime
  (\<open>storable\<close>), it stores the value under the key with that expiry and touches no
  other key and not the field; otherwise it raises OverflowError and stores
  nothing. Callers choose the time to live by assigning \<open>ttl_seconds\<close> right before
  the call; done so, the expiry is \<open>now + ttl\<close>. A later \<open>set\<close> of the same key replaces
  value and expiry together: after it the cache is what the later call alone would
  have made of the original cache, and \<open>get\<close> answers by the new expiry alone.
  This is how \<^verbatim>\<open>get_spot\<close> and \<^verbatim>\<open>get_hist\<close> store a result: after a request that
  returns (its pacing sleep being one the platform accepts), the shared cache has \<open>ttl_seconds\<close> 30 (3600 for \<^verbatim>\<open>get_hist\<close>) and holds the
  output under the key of the request with the expiry that many seconds after the
  current time.
\<close>

theorem DataCache_set_replaces_entry:
  "(storable now (ttl_seconds c) \<longrightarrow>
      DataCache_set c now key val
        = Inr (c\<lparr>entries := (entries c)(key \<mapsto> (val, now + real_of_int (ttl_seconds c)))\<rparr>))
   \<and> (\<not> storable now (ttl_seconds c) \<longrightarrow>
        (\<exists>e. DataCache_set c now key val = Inl e \<and> is_Exception e
              \<and> exn_class e = ''OverflowError''))
   \<and> (storable now ttl \<longrightarrow>
        DataCache_set (c\<lparr>ttl_seconds := ttl\<rparr>) now key val
          = Inr (c\<lparr>ttl_seconds := ttl,
                   entries := (entries c)(key \<mapsto> (val, now + real_of_int ttl))\<rparr>))
   \<and> (storable now' ttl' \<longrightarrow>
        DataCache_set ((c\<lparr>ttl_seconds := ttl,
                           entries := (entries c)(key \<mapsto> (val, now + real_of_int ttl))\<rparr>)
                         \<lparr>ttl_seconds := ttl'\<rparr>) now' key val'
          = Inr (c\<lparr>ttl_seconds := ttl',
                   entries := (entries c)(key \<mapsto> (val', now' + real_of_int ttl'))\<rparr>)
        \<and> fst (DataCache_get
                 (c\<lparr>ttl_seconds := ttl',
                    entries := (entries c)(key \<mapsto> (val', now' + real_of_int ttl'))\<rparr>) t key)
            = (if t < now' + real_of_int ttl' then val' else PNone))
   \<and> (pacing_ok s \<and> fst (get_spot_miss fetch_tx symbol source True s) = Inr out \<longrightarrow>
        (\<exists>c'. g_cache (snd (get_spot_miss fetch_tx symbol source True s)) = Some c'
              \<and> ttl_seconds c' = 30
              \<and> entries c' (spot_key symbol source)
                  = Some (out,
                          clock (env (snd (get_spot_miss fetch_tx symbol source True s))) + 30)))
   \<and> (pacing_ok s
        \<and> fst (get_hist_miss fetch_tx_hist symbol start end_date period adjust source True s)
            = Inr out' \<longrightarrow>
        (\<exists>c'. g_cache (snd (get_hist_miss fetch_tx_hist symbol start end_date period adjust source
                                True s)) = Some c'
              \<and> ttl_seconds c' = 3600
              \<and> entries c' (hist_key symbol start end_date period adjust)
                  = Some (out',
                          clock (env (snd (get_hist_miss fetch_tx_hist symbol start end_date
                                             period adjust source True s))) + 3600)))"
proof -
  have a: "storable now (ttl_seconds c) \<longrightarrow>
      DataCache_set c now key val
        = Inr (c\<lparr>entries := (entries c)(key \<mapsto> (val, now + real_of_int (ttl_seconds c)))\<rparr>)"
    using DataCache_set_storable by blast
  have b: "\<not> storable now (ttl_seconds c) \<longrightarrow>
        (\<exists>e. DataCache_set c now key val = Inl e \<and> is_Exception e
              \<and> exn_class e = ''OverflowError'')"
    using DataCache_set_overflow by blast
  have c: "storable now ttl \<longrightarrow>
        DataCache_set (c\<lparr>ttl_seconds := ttl\<rparr>) now key val
          = Inr (c\<lparr>ttl_seconds := ttl,
                   entries := (entries c)(key \<mapsto> (val, now + real_of_int ttl))\<rparr>)"
    using DataCache_set_storable[of now "c\<lparr>ttl_seconds := ttl\<rparr>" key val] by simp
  have d: "storable now' ttl' \<longrightarrow>
        DataCache_set ((c\<lparr>ttl_seconds := ttl,
                           entries := (entries c)(key \<mapsto> (val, now + real_of_int ttl))\<rparr>)
                         \<lparr>ttl_seconds := ttl'\<rparr>) now' key val'
          = Inr (c\<lparr>ttl_seconds := ttl',
                   entries := (entries c)(key \<mapsto> (val', now' + real_of_int ttl'))\<rparr>)
        \<and> fst (DataCache_get
                 (c\<lparr>ttl_seconds := ttl',
                    entries := (entries c)(key \<mapsto> (val', now' + real_of_int ttl'))\<rparr>) t key)
            = (if t < now' + real_of_int ttl' then val' else PNone)"
    using DataCache_set_storable
            [of now' "(c\<lparr>ttl_seconds := ttl,
                         entries := (entries c)(key \<mapsto> (val, now + real_of_int ttl))\<rparr>)
                       \<lparr>ttl_seconds := ttl'\<rparr>" key val']
    by (simp add: DataCache_get_def)
  show ?thesis
    using a b c d get_spot_miss_caches[of fetch_tx symbol source s out]
          get_hist_miss_caches[of fetch_tx_hist symbol start end_date period adjust source s out']
    by blast
qed

theorem DataCache_set_replaces_entry_witness:
  "DataCache_set \<lparr>ttl_seconds = 3600, entries = [''k'' \<mapsto> (PInt 1, 1)]\<rparr> 2 ''k'' (PInt 2)
     = Inr \<lparr>ttl_seconds = 3600, entries = [''k'' \<mapsto> (PInt 2, 3602)]\<rparr>
   \<and> (\<exists>e. DataCache_set \<lparr>ttl_seconds = 1000000000000, entries = Map.empty\<rparr> 0 ''k'' (PInt 1)
             = Inl e \<and> is_Exception e \<and> exn_class e = ''OverflowError'')"
proof -
  have s: "storable 2 3600" "storable 0 1"
    by (simp_all add: storable_def datetime_min_def datetime_end_def)
  have n: "\<not> storable 0 1000000000000"
    by (simp add: storable_def datetime_min_def datetime_end_def)
  show ?thesis
    using s n
      DataCache_set_replaces_entry
        [where c = "DataCache_init 300" and now = 0 and key = "''k''" and val = "PInt 1"
           and ttl = 1 and ttl' = 3600 and now' = 2 and val' = "PInt 2" and t = 0
           and fetch_tx = fetch_tx_ok and symbol = "[]" and source = "[]"
           and s = "fresh_system (plain_world 0 0 (0::nat))" and out = PNone
           and fetch_tx_hist = fetch_tx_hist_timeout and start = "[]" and end_date = "[]"
           and period = "[]" and adjust = "[]" and out' = PNone]
      DataCache_set_replaces_entry
        [where c = "\<lparr>ttl_seconds = 1000000000000, entries = Map.empty\<rparr>" and now = 0
           and key = "''k''" and val = "PInt 1"
           and ttl = 1 and ttl' = 3600 and now' = 2 and val' = "PInt 2" and t = 0
           and fetch_tx = fetch_tx_ok and symbol = "[]" and source = "[]"
           and s = "fresh_system (plain_world 0 0 (0::nat))" and out = PNone
           and fetch_tx_hist = fetch_tx_hist_timeout and start = "[]" and end_date = "[]"
           and period = "[]" and adjust = "[]" and out' = PNone]
    by (simp add: DataCache_init_def)
qed

subsection \<open>The source router\<close>

lemma find_filter_head:
  "(case filter P xs of [] \<Rightarrow> None | c # _ \<Rightarrow> Some c) = List.find P xs"
  by (induction xs) auto

text \<open>
  C8: \<open>get_source\<close> returns the preferred source itself when it is given, non-empty,
  among the operation's configured candidates and not marked failed; in every other
  case it returns the first candidate, in configured order, that is not marked
  failed; and it returns \<open>None\<close> exactly when every configured candidate of the
  operation is marked failed.
\<close>

theorem get_source_selection:
  "get_source r operation preferred =
     (case preferred of
        Some p \<Rightarrow>
          if p \<noteq> [] \<and> p \<in> set (available_sources r operation) \<and> p \<notin> failed r operation
          then Some p
          else List.find (\<lambda>s. s \<notin> failed r operation) (available_sources r operation)
      | None \<Rightarrow> List.find (\<lambda>s. s \<notin> failed r operation) (available_sources r operation))
   \<and> ((\<forall>s \<in> set (available_sources r operation). s \<in> failed r operation)
        \<longleftrightarrow> get_source r operation preferred = None)"
  by (auto simp add: get_source_def Let_def find_filter_head find_None_iff split: option.splits)

theorem get_source_selection_witness:
  "get_source (SourceRouter_init None) ''hist'' (Some ''tx'') = Some ''tx''
   \<and> get_source (mark_failed (SourceRouter_init None) ''spot'' ''em'') ''spot'' (Some ''em'')
       = Some ''sina''
   \<and> get_source (mark_failed (mark_failed (SourceRouter_init None) ''spot'' ''em'') ''spot'' ''sina'')
        ''spot'' (Some ''em'') = None"
  using get_source_selection [of "SourceRouter_init None" "''hist''" "Some ''tx''"]
        get_source_selection
          [of "mark_failed (SourceRouter_init None) ''spot'' ''em''" "''spot''" "Some ''em''"]
        get_source_selection
          [of "mark_failed (mark_failed (SourceRouter_init None) ''spot'' ''em'') ''spot'' ''sina''"
              "''spot''" "Some ''em''"]
  by (simp add: SourceRouter_init_def DEFAULT_SOURCES_def available_sources_def failed_def
        mark_failed_def)

lemma failed_mark_failed:
  "failed (mark_failed r operation source) op =
     (if op = operation then insert source (failed r operation) else failed r op)"
  by (simp add: failed_def mark_failed_def)

lemma failed_mark_success:
  "failed (mark_success r operation source) op =
     (if op = operation then failed r operation - {source} else failed r op)"
  by (auto simp add: failed_def mark_success_def split: option.splits)

lemma failed_reset: "failed (reset r) op = {}"
  by (simp add: failed_def reset_def)

lemma router_step_sources: "sources (router_step r c) = sources r"
  by (cases c) (simp_all add: mark_failed_def mark_success_def reset_def split: option.splits)

lemma router_step_available: "available_sources (router_step r c) op = available_sources r op"
  by (simp add: available_sources_def router_step_sources)

lemma router_step_inv:
  assumes "listed r c" and "\<forall>op. failed r op \<subseteq> set (available_sources r op)"
  shows "\<forall>op. failed (router_step r c) op \<subseteq> set (available_sources (router_step r c) op)"
proof (cases c)
  case (GetSource x1 x2)
  then show ?thesis using assms by simp
next
  case (MarkFailed operation source)
  then show ?thesis using assms
    by (auto simp add: failed_mark_failed
          router_step_available[of r c, unfolded MarkFailed, simplified])
next
  case (MarkSuccess operation source)
  then show ?thesis using assms
    by (auto simp add: failed_mark_success
          router_step_available[of r c, unfolded MarkSuccess, simplified])
next
  case Reset
  then show ?thesis by (simp add: failed_reset)
qed

lemma listed_step: "listed (router_step r c) c' = listed r c'"
  by (cases c') (simp_all add: router_step_available)

lemma router_run_available: "available_sources (router_run r calls) op = available_sources r op"
  unfolding router_run_def
  by (induction calls arbitrary: r) (simp_all add: router_step_available)

lemma router_run_inv:
  assumes "\<forall>c \<in> set calls. listed r c" and "\<forall>op. failed r op \<subseteq> set (available_sources r op)"
  shows "\<forall>op. failed (router_run r calls) op \<subseteq> set (available_sources r op)"
  using assms unfolding router_run_def
proof (induction calls arbitrary: r)
  case Nil
  then show ?case by simp
next
  case (Cons c calls)
  have 1: "\<forall>c' \<in> set calls. listed (router_step r c) c'"
    using Cons.prems(1) by (simp add: listed_step)
  have 2: "\<forall>op. failed (router_step r c) op \<subseteq> set (available_sources (router_step r c) op)"
    using router_step_inv[of r c] Cons.prems by simp
  show ?case using Cons.IH[OF 1 2] by (simp add: router_step_available)
qed

text \<open>
  C4, as stated, fails: \<open>mark_failed\<close> records whatever source it is given. On the
  default router one call that marks \<^verbatim>\<open>"tx"\<close> (the source \<^verbatim>\<open>get_spot\<close> uses) for
  \<^verbatim>\<open>"spot"\<close>, whose candidates are \<^verbatim>\<open>"em"\<close> and \<^verbatim>\<open>"sina"\<close>, leaves a failed set
  outside the candidate list.
\<close>

theorem failed_subset_counterexample:
  "\<not> failed (router_run (SourceRouter_init None) [MarkFailed ''spot'' ''tx'']) ''spot''
       \<subseteq> set (available_sources (router_run (SourceRouter_init None) [MarkFailed ''spot'' ''tx''])
                ''spot'')"
  by (simp add: router_run_def failed_def mark_failed_def SourceRouter_init_def
        available_sources_def DEFAULT_SOURCES_def)

text \<open>
  C4 (amended): in every router state reached from a new router by a sequence of
  \<open>get_source\<close>, \<open>mark_failed\<close>, \<open>mark_success\<close> and \<open>reset\<close> calls in which every
  \<open>mark_failed\<close> is given a source from the configured candidate list of its
  operation, the failed set of each operation is a subset of that operation's
  candidate list.
\<close>

theorem failed_subset_of_candidates:
  assumes "\<forall>c \<in> set calls. listed (SourceRouter_init srcs) c"
  shows "failed (router_run (SourceRouter_init srcs) calls) operation
           \<subseteq> set (available_sources (router_run (SourceRouter_init srcs) calls) operation)"
proof -
  have "\<forall>op. failed (SourceRouter_init srcs) op \<subseteq> set (available_sources (SourceRouter_init srcs) op)"
    by (simp add: failed_def SourceRouter_init_def)
  from router_run_inv[OF assms this] show ?thesis
    by (simp add: router_run_available)
qed

theorem failed_subset_of_candidates_witness:
  "failed (router_run (SourceRouter_init None)
             [MarkFailed ''spot'' ''em'', GetSource ''spot'' (Some ''em''),
              MarkFailed ''hist'' ''tx'', MarkSuccess ''spot'' ''sina'']) ''spot''
     \<subseteq> {''em'', ''sina''}"
proof -
  have l: "\<forall>c \<in> set [MarkFailed ''spot'' ''em'', GetSource ''spot'' (Some ''em''),
                       MarkFailed ''hist'' ''tx'', MarkSuccess ''spot'' ''sina''].
             listed (SourceRouter_init None) c"
    by (simp add: SourceRouter_init_def available_sources_def DEFAULT_SOURCES_def)
  have a: "set (available_sources (SourceRouter_init None) ''spot'') = {''em'', ''sina''}"
    by (simp add: SourceRouter_init_def available_sources_def DEFAULT_SOURCES_def)
  show ?thesis
    using failed_subset_of_candidates [OF l, of "''spot''"] a
    by (simp only: router_run_available)
qed
subsection \<open>Pacing\<close>

lemma wait_config:
  "min_interval (fst (wait rl w)) = min_interval rl"
  "max_interval (fst (wait rl w)) = max_interval rl"
  "rl_enable_random (fst (wait rl w)) = rl_enable_random rl"
  "rnd (snd (wait rl w)) = rnd w"
  "oversleep (snd (wait rl w)) = oversleep w"
  "last_request_time (fst (wait rl w)) = clock (snd (wait rl w))"
  by (simp_all add: wait_def Let_def random_uniform_def time_sleep_def split: prod.splits)

lemma wait_world:
  "invocations (snd (wait rl w)) = invocations w"
  "upstream (snd (wait rl w)) = upstream w"
  by (simp_all add: wait_def Let_def random_uniform_def time_sleep_def invocations_def
        split: prod.splits)









subsection \<open>The governed requests\<close>





lemma wait_sleep_max: "sleep_max (snd (wait rl w)) = sleep_max w"
  by (simp add: wait_def Let_def random_uniform_def time_sleep_def split: prod.splits)

lemma get_spot_miss_facts:
  "fst (execute (fst (get_retry_handler s)) (fetch_tx symbol) (world_after_wait s)) = Inl e
     \<Longrightarrow> fst (get_spot_miss fetch_tx symbol source use_cache s) = Inl e"
  "g_source_router (snd (get_spot_miss fetch_tx symbol source use_cache s)) = g_source_router s"
  "env (snd (get_spot_miss fetch_tx symbol source use_cache s)) =
     snd (execute (fst (get_retry_handler s)) (fetch_tx symbol) (world_after_wait s))"
  "g_rate_limiter (snd (get_spot_miss fetch_tx symbol source use_cache s)) = Some (limiter_after_wait s)"
  by (simp_all add: get_spot_miss_def world_after_wait_def limiter_after_wait_def
        Let_def case_prod_beta split: sum.splits)

lemma get_hist_miss_facts:
  "fst (execute (fst (get_retry_handler s))
          (fetch_tx_hist symbol start end_date period adjust) (world_after_wait s)) = Inl e
     \<Longrightarrow> fst (get_hist_miss fetch_tx_hist symbol start end_date period adjust source use_cache s)
           = Inl e"
  "g_source_router (snd (get_hist_miss fetch_tx_hist symbol start end_date period adjust source
       use_cache s)) = g_source_router s"
  "env (snd (get_hist_miss fetch_tx_hist symbol start end_date period adjust source use_cache s)) =
     snd (execute (fst (get_retry_handler s))
            (fetch_tx_hist symbol start end_date period adjust) (world_after_wait s))"
  "g_rate_limiter (snd (get_hist_miss fetch_tx_hist symbol start end_date period adjust source
       use_cache s)) = Some (limiter_after_wait s)"
  by (simp_all add: get_hist_miss_def world_after_wait_def limiter_after_wait_def
        Let_def case_prod_beta split: sum.splits)

lemma get_spot_on_miss:
  assumes "use_cache \<longrightarrow> cache_miss (spot_key symbol source) s"
  shows "\<exists>z. get_spot fetch_tx symbol source use_cache s
               = get_spot_miss fetch_tx symbol source use_cache
                   (if use_cache then (snd (get_cache s))\<lparr>g_cache := z\<rparr> else s)"
  using assms
  by (auto simp add: get_spot_def cache_miss_def Let_def case_prod_beta)

lemma get_hist_on_miss:
  assumes "use_cache \<longrightarrow> cache_miss (hist_key symbol start end_date period adjust) s"
  shows "\<exists>z. get_hist fetch_tx_hist symbol start end_date period adjust source use_cache s
                = get_hist_miss fetch_tx_hist symbol start end_date period adjust source use_cache
                    (if use_cache then (snd (get_cache s))\<lparr>g_cache := z\<rparr> else s)"
  using assms
  by (auto simp add: get_hist_def cache_miss_def Let_def case_prod_beta)

lemma after_cache_lookup [simp]:
  "world_after_wait ((snd (get_cache s))\<lparr>g_cache := z\<rparr>) = world_after_wait s"
  "limiter_after_wait ((snd (get_cache s))\<lparr>g_cache := z\<rparr>) = limiter_after_wait s"
  by (simp_all add: world_after_wait_def limiter_after_wait_def)

lemma world_after_wait_facts:
  "invocations (world_after_wait s) = invocations (env s)"
  "upstream (world_after_wait s) = upstream (env s)"
  "backoff_ok h (world_after_wait s) = backoff_ok h (env s)"
  by (simp_all add: world_after_wait_def wait_world backoff_ok_def wait_config wait_sleep_max)

lemma get_spot_exhaust:
  assumes "fails_for (fetch_tx symbol) (Suc (nat (max_retries (fst (get_retry_handler s)))))
             (upstream (env s))"
    and "0 \<le> max_retries (fst (get_retry_handler s))"
    and "backoff_ok (fst (get_retry_handler s)) (env s)"
    and "use_cache \<longrightarrow> cache_miss (spot_key symbol source) s"
  shows "fst (get_spot fetch_tx symbol source use_cache s)
           = fst (fetch_tx symbol (upstream_after (fetch_tx symbol)
                    (nat (max_retries (fst (get_retry_handler s)))) (upstream (env s))))"
    and "\<exists>e. fst (get_spot fetch_tx symbol source use_cache s) = Inl e \<and> is_retryable_error e"
    and "invocations (env (snd (get_spot fetch_tx symbol source use_cache s)))
           = invocations (env s) + nat (max_retries (fst (get_retry_handler s))) + 1"
    and "g_source_router (snd (get_spot fetch_tx symbol source use_cache s)) = g_source_router s"
proof -
  let ?h = "fst (get_retry_handler s)"
  let ?s2 = "\<lambda>z. if use_cache then (snd (get_cache s))\<lparr>g_cache := z\<rparr> else s"
  from get_spot_on_miss[OF assms(4)] obtain z where
    eq: "get_spot fetch_tx symbol source use_cache s
           = get_spot_miss fetch_tx symbol source use_cache (?s2 z)" by blast
  have h2: "fst (get_retry_handler (?s2 z)) = ?h" "world_after_wait (?s2 z) = world_after_wait s"
    "g_source_router (?s2 z) = g_source_router s"
    by simp_all
  have f: "fails_for (fetch_tx symbol) (Suc (nat (max_retries ?h))) (upstream (world_after_wait s))"
    using assms(1) by (simp add: world_after_wait_facts)
  have ok: "backoff_ok ?h (world_after_wait s)"
    using assms(3) by (simp add: world_after_wait_facts)
  note ex = execute_exhaust[OF f assms(2) ok]
  from ex(3) obtain e where e: "fst (execute ?h (fetch_tx symbol) (world_after_wait s)) = Inl e"
    "is_retryable_error e" by blast
  have r: "fst (get_spot fetch_tx symbol source use_cache s) = Inl e"
    unfolding eq using get_spot_miss_facts(1)[of "?s2 z" fetch_tx symbol e source use_cache] e(1) h2
    by simp
  show "fst (get_spot fetch_tx symbol source use_cache s)
           = fst (fetch_tx symbol (upstream_after (fetch_tx symbol)
                    (nat (max_retries ?h)) (upstream (env s))))"
    using r e ex(2) by (simp add: world_after_wait_facts)
  show "\<exists>e. fst (get_spot fetch_tx symbol source use_cache s) = Inl e \<and> is_retryable_error e"
    using r e by blast
  show "invocations (env (snd (get_spot fetch_tx symbol source use_cache s)))
           = invocations (env s) + nat (max_retries ?h) + 1"
    unfolding eq get_spot_miss_facts(3) h2 using ex(1) by (simp add: world_after_wait_facts)
  show "g_source_router (snd (get_spot fetch_tx symbol source use_cache s)) = g_source_router s"
    unfolding eq get_spot_miss_facts(2) h2 ..
qed

lemma get_hist_exhaust:
  assumes "fails_for (fetch_tx_hist symbol start end_date period adjust)
             (Suc (nat (max_retries (fst (get_retry_handler s))))) (upstream (env s))"
    and "0 \<le> max_retries (fst (get_retry_handler s))"
    and "backoff_ok (fst (get_retry_handler s)) (env s)"
    and "use_cache \<longrightarrow> cache_miss (hist_key symbol start end_date period adjust) s"
  shows "fst (get_hist fetch_tx_hist symbol start end_date period adjust source use_cache s)
           = fst (fetch_tx_hist symbol start end_date period adjust
                    (upstream_after (fetch_tx_hist symbol start end_date period adjust)
                       (nat (max_retries (fst (get_retry_handler s)))) (upstream (env s))))"
    and "\<exists>e. fst (get_hist fetch_tx_hist symbol start end_date period adjust source use_cache s)
               = Inl e \<and> is_retryable_error e"
    and "invocations (env (snd (get_hist fetch_tx_hist symbol start end_date period adjust source
                                  use_cache s)))
           = invocations (env s) + nat (max_retries (fst (get_retry_handler s))) + 1"
    and "g_source_router (snd (get_hist fetch_tx_hist symbol start end_date period adjust source
                                 use_cache s)) = g_source_router s"
proof -
  let ?h = "fst (get_retry_handler s)"
  let ?f = "fetch_tx_hist symbol start end_date period adjust"
  let ?g = "get_hist fetch_tx_hist symbol start end_date period adjust source use_cache s"
  let ?s2 = "\<lambda>z. if use_cache then (snd (get_cache s))\<lparr>g_cache := z\<rparr> else s"
  from get_hist_on_miss[OF assms(4)] obtain z where
    eq: "?g = get_hist_miss fetch_tx_hist symbol start end_date period adjust source use_cache
                (?s2 z)" by blast
  have h2: "fst (get_retry_handler (?s2 z)) = ?h" "world_after_wait (?s2 z) = world_after_wait s"
    "g_source_router (?s2 z) = g_source_router s"
    by simp_all
  have f: "fails_for ?f (Suc (nat (max_retries ?h))) (upstream (world_after_wait s))"
    using assms(1) by (simp add: world_after_wait_facts)
  have ok: "backoff_ok ?h (world_after_wait s)"
    using assms(3) by (simp add: world_after_wait_facts)
  note ex = execute_exhaust[OF f assms(2) ok]
  from ex(3) obtain e where e: "fst (execute ?h ?f (world_after_wait s)) = Inl e"
    "is_retryable_error e" by blast
  have r: "fst ?g = Inl e"
    unfolding eq
    using get_hist_miss_facts(1)[of "?s2 z" fetch_tx_hist symbol start end_date period adjust e
            source use_cache] e(1) h2
    by simp
  show "fst ?g = fst (?f (upstream_after ?f (nat (max_retries ?h)) (upstream (env s))))"
    using r e ex(2) by (simp add: world_after_wait_facts)
  show "\<exists>e. fst ?g = Inl e \<and> is_retryable_error e"
    using r e by blast
  show "invocations (env (snd ?g)) = invocations (env s) + nat (max_retries ?h) + 1"
    unfolding eq get_hist_miss_facts(3) h2 using ex(1) by (simp add: world_after_wait_facts)
  show "g_source_router (snd ?g) = g_source_router s"
    unfolding eq get_hist_miss_facts(2) h2 ..
qed

lemma fresh_system_facts:
  "fst (get_retry_handler (fresh_system w)) = RetryHandler_init 3 5 60 True"
  "cache_miss key (fresh_system w)"
  "env (fresh_system w) = w"
  "g_source_router (fresh_system w) = None"
  by (simp_all add: fresh_system_def get_retry_handler_def cache_miss_def
        get_cache_def DataCache_init_def DataCache_get_def Let_def)

text \<open>
  C1, as stated, fails for \<^verbatim>\<open>get_spot\<close> and \<^verbatim>\<open>get_hist\<close>: their handler around
  \<open>execute\<close> only re-raises. In a new process a spot request for source \<^verbatim>\<open>"tx"\<close>
  whose fetch times out on every call ends with that error after the four attempts
  of one run of the retry handler, although the router would name the alternate
  \<^verbatim>\<open>"em"\<close> for \<^verbatim>\<open>"spot"\<close>; the router singleton is not even created.
\<close>

theorem governed_failure_propagates_counterexample:
  "fst (get_spot fetch_tx_timeout ''600000'' ''tx'' True (fresh_system (plain_world 0 0 0)))
     = Inl timeout_error
   \<and> invocations (env (snd (get_spot fetch_tx_timeout ''600000'' ''tx'' True
                               (fresh_system (plain_world 0 0 0))))) = 4
   \<and> g_source_router (snd (get_spot fetch_tx_timeout ''600000'' ''tx'' True
                             (fresh_system (plain_world 0 0 0)))) = None
   \<and> get_source (fst (get_source_router (fresh_system (plain_world 0 0 (0::nat))))) ''spot''
        (Some ''tx'') = Some ''em''"
  by (simp add: get_spot_def get_spot_miss_def fresh_system_def plain_world_def get_cache_def
        DataCache_init_def DataCache_get_def spot_key_def get_rate_limiter_def RateLimiter_init_def
        wait_def get_retry_handler_def RetryHandler_init_def execute_def numeral_eq_Suc
        invoke_def fetch_tx_timeout_def always_timeout_def timeout_retryable timeout_is_exception
        calculate_delay_def sleep_or_raise_def
        random_uniform_def time_sleep_def pow2_def invocations_def Let_def get_source_router_def
        get_source_def SourceRouter_init_def DEFAULT_SOURCES_def available_sources_def failed_def)

text \<open>
  C1 (amended): for \<^verbatim>\<open>get_spot\<close> and \<^verbatim>\<open>get_hist\<close>, when the request is not answered from
  the cache, the pacing sleep is one the platform accepts, and the fetch raises a retryable \<^verbatim>\<open>Exception\<close> on each of the
  \<open>max_retries + 1\<close> attempts of the shared retry handler (whose backoffs can all be
  computed and slept, \<open>0 \<le> max_retries\<close>), the request raises the error of the last
  attempt after exactly these \<open>max_retries + 1\<close> invocations of the fetch: the
  sequence is not restarted, and the source router is left exactly as it was,
  whether or not it has an alternate source.
\<close>

theorem governed_failure_propagates:
  assumes "fails_for (fetch_tx symbol) (Suc (nat (max_retries (fst (get_retry_handler s)))))
             (upstream (env s))"
    and "fails_for (fetch_tx_hist symbol start end_date period adjust)
             (Suc (nat (max_retries (fst (get_retry_handler s))))) (upstream (env s))"
    and "0 \<le> max_retries (fst (get_retry_handler s))"
    and "backoff_ok (fst (get_retry_handler s)) (env s)"
    and "pacing_ok s"
    and "use_cache \<longrightarrow> cache_miss (spot_key symbol source) s"
    and "use_cache \<longrightarrow> cache_miss (hist_key symbol start end_date period adjust) s"
  shows "fst (get_spot fetch_tx symbol source use_cache s)
           = fst (fetch_tx symbol (upstream_after (fetch_tx symbol)
                    (nat (max_retries (fst (get_retry_handler s)))) (upstream (env s))))
       \<and> (\<exists>e. fst (get_spot fetch_tx symbol source use_cache s) = Inl e \<and> is_retryable_error e)
       \<and> invocations (env (snd (get_spot fetch_tx symbol source use_cache s)))
           = invocations (env s) + nat (max_retries (fst (get_retry_handler s))) + 1
       \<and> g_source_router (snd (get_spot fetch_tx symbol source use_cache s)) = g_source_router s
       \<and> fst (get_hist fetch_tx_hist symbol start end_date period adjust source use_cache s)
           = fst (fetch_tx_hist symbol start end_date period adjust
                    (upstream_after (fetch_tx_hist symbol start end_date period adjust)
                       (nat (max_retries (fst (get_retry_handler s)))) (upstream (env s))))
       \<and> (\<exists>e. fst (get_hist fetch_tx_hist symbol start end_date period adjust source use_cache s)
               = Inl e \<and> is_retryable_error e)
       \<and> invocations (env (snd (get_hist fetch_tx_hist symbol start end_date period adjust source
                                  use_cache s)))
           = invocations (env s) + nat (max_retries (fst (get_retry_handler s))) + 1
       \<and> g_source_router (snd (get_hist fetch_tx_hist symbol start end_date period adjust source
                                 use_cache s)) = g_source_router s"
  using get_spot_exhaust[where fetch_tx = fetch_tx and symbol = symbol, OF assms(1,3,4,6)]
        get_hist_exhaust[where fetch_tx_hist = fetch_tx_hist and symbol = symbol
                           and start = start and end_date = end_date and period = period
                           and adjust = adjust, OF assms(2,3,4,7)]
  by (intro conjI)

theorem governed_failure_propagates_witness:
  "fst (get_spot fetch_tx_flaky ''000001'' ''em'' True (fresh_system (plain_world 0 0 0)))
     = Inl timeout_error
   \<and> invocations (env (snd (get_spot fetch_tx_flaky ''000001'' ''em'' True
                               (fresh_system (plain_world 0 0 0))))) = 4
   \<and> fst (get_hist fetch_tx_hist_timeout ''000001'' ''20240101'' ''20240131'' ''daily'' [] ''em''
            True (fresh_system (plain_world 0 0 0))) = Inl timeout_error
   \<and> invocations (env (snd (get_hist fetch_tx_hist_timeout ''000001'' ''20240101'' ''20240131''
                               ''daily'' [] ''em'' True (fresh_system (plain_world 0 0 0))))) = 4
   \<and> g_source_router (snd (get_hist fetch_tx_hist_timeout ''000001'' ''20240101'' ''20240131''
                               ''daily'' [] ''em'' True (fresh_system (plain_world 0 0 0)))) = None"
proof -
  let ?s = "fresh_system (plain_world 0 0 (0::nat))"
  have a: "fails_for (fetch_tx_flaky ''000001'') (Suc (nat (max_retries (fst (get_retry_handler ?s)))))
             (upstream (env ?s))"
    by (simp add: fresh_system_facts RetryHandler_init_def plain_world_def numeral_eq_Suc
          fetch_tx_flaky_def timeout_retryable timeout_is_exception)
  have b: "fails_for (fetch_tx_hist_timeout ''000001'' ''20240101'' ''20240131'' ''daily'' [])
             (Suc (nat (max_retries (fst (get_retry_handler ?s))))) (upstream (env ?s))"
    unfolding fetch_tx_hist_timeout_def by (rule always_timeout_fails)
  have c: "0 \<le> max_retries (fst (get_retry_handler ?s))"
    by (simp add: fresh_system_facts RetryHandler_init_def)
  have k: "backoff_ok (fst (get_retry_handler ?s)) (env ?s)"
    by (simp add: fresh_system_facts backoff_ok_plain)
  have p: "pacing_ok ?s"
    by (simp add: pacing_ok_def fresh_system_def get_rate_limiter_def RateLimiter_init_def
          target_def random_uniform_def plain_world_def Let_def)
  have d: "True \<longrightarrow> cache_miss (spot_key ''000001'' ''em'') ?s"
    and e: "True \<longrightarrow> cache_miss (hist_key ''000001'' ''20240101'' ''20240131'' ''daily'' []) ?s"
    by (simp_all add: fresh_system_facts)
  show ?thesis
    using governed_failure_propagates
            [where fetch_tx = fetch_tx_flaky and symbol = "''000001''"
               and fetch_tx_hist = fetch_tx_hist_timeout and start = "''20240101''"
               and end_date = "''20240131''" and period = "''daily''" and adjust = "[]"
               and source = "''em''" and s = "fresh_system (plain_world 0 0 (0::nat))",
             OF a b c k p d e]
    by (simp add: fresh_system_facts RetryHandler_init_def fetch_tx_flaky_def
          fetch_tx_hist_timeout_def always_timeout_def plain_world_def invocations_def
          numeral_eq_Suc)
qed















end
